theory Spec2Isabelle
  imports Complex_Main "HOL-Library.Multiset" "HOL-Library.List_Lexorder" "HOL-Library.Char_ord"
begin

chapter \<open>Parts catalogue: a shallow embedding of the TypeScript sources\<close>

text \<open>
  The development embeds the logic of the parts catalogue application: the catalogue and
  summary pages (filter, sort, paginate), the store service (\<^verbatim>\<open>services/firebase.ts\<close>),
  the part application page (ticket submission), the admin page (merge update) and the PDF
  export (\<^verbatim>\<open>services/pdf.ts\<close>).

  Conventions of the embedding.
  \<^item> A JavaScript \<^verbatim>\<open>number\<close> is a \<^typ>\<open>real\<close>: \<^verbatim>\<open>NaN\<close>, the infinities and
    rounding are not modelled.
  \<^item> A JavaScript string is a \<^typ>\<open>string\<close>.
  \<^item> An optional property \<^verbatim>\<open>p?: T\<close> is an \<^typ>\<open>'a option\<close>; \<^const>\<open>None\<close> is
    \<^verbatim>\<open>undefined\<close>.
  \<^item> An object used as a dictionary (\<^verbatim>\<open>Record<string, Part>\<close>) is the list of its
    entries in enumeration order, that is, the list \<^verbatim>\<open>Object.entries\<close> returns.
  \<^item> Component state (\<^verbatim>\<open>useState\<close>) is passed explicitly.
\<close>

section \<open>JavaScript primitives\<close>

text \<open>\<^verbatim>\<open>x || 0\<close> for an optional number: \<^verbatim>\<open>undefined\<close> and \<^verbatim>\<open>0\<close> both give 0.\<close>

definition num_or0 :: "real option \<Rightarrow> real" where
  "num_or0 x = (case x of None \<Rightarrow> 0 | Some v \<Rightarrow> v)"

text \<open>\<^verbatim>\<open>s || ''\<close> for an optional string.\<close>

definition str_or_empty :: "string option \<Rightarrow> string" where
  "str_or_empty s = (case s of None \<Rightarrow> [] | Some v \<Rightarrow> v)"

text \<open>
  \<^verbatim>\<open>Array.prototype.slice(start, end)\<close>: a negative index counts from the end, both
  indices are clamped to the array, and an end before the start gives the empty array.
\<close>

definition js_slice :: "'a list \<Rightarrow> int \<Rightarrow> int \<Rightarrow> 'a list" where
  "js_slice xs start end' =
     (let len = int (length xs);
          k = (if start < 0 then max (len + start) 0 else min start len);
          final = (if end' < 0 then max (len + end') 0 else min end' len)
      in take (nat (final - k)) (drop (nat k) xs))"

text \<open>
  \<^verbatim>\<open>Array.prototype.sort(comparefn)\<close>. ECMAScript requires the sort to be stable; the model
  is the stable insertion sort: an element is placed before the first element it does not
  compare greater than, so that elements comparing equal keep their order. Every comparator
  below compares a key of the elements; for such a comparator the ordered, stable
  permutation of a list is unique (lemma \<open>js_sort_unique\<close>), so that every stable sort
  returns the list the model returns.
\<close>

fun insort_cmp :: "('a \<Rightarrow> 'a \<Rightarrow> real) \<Rightarrow> 'a \<Rightarrow> 'a list \<Rightarrow> 'a list" where
  "insort_cmp cmp x [] = [x]"
| "insort_cmp cmp x (y # ys) =
     (if cmp x y \<le> 0 then x # y # ys else y # insort_cmp cmp x ys)"

definition js_sort :: "('a \<Rightarrow> 'a \<Rightarrow> real) \<Rightarrow> 'a list \<Rightarrow> 'a list" where
  "js_sort cmp xs = foldr (insort_cmp cmp) xs []"

text \<open>
  \<^verbatim>\<open>n.toString()\<close> for a natural number, and the number a string of decimal digits
  denotes.
\<close>

definition digit :: "nat \<Rightarrow> char" where
  "digit d = char_of (48 + d)"

fun toString :: "nat \<Rightarrow> string" where
  "toString n = (if n < 10 then [digit n] else toString (n div 10) @ [digit (n mod 10)])"

declare toString.simps [simp del]

definition digit_val :: "char \<Rightarrow> nat" where
  "digit_val c = of_char c - 48"

definition parse :: "string \<Rightarrow> nat" where
  "parse s = foldl (\<lambda>acc c. acc * 10 + digit_val c) 0 s"

text \<open>
  An array index in the sense of ECMAScript: a property key that is the canonical decimal
  numeral of a number below \<open>2\<^sup>3\<^sup>2 - 1 = 4294967295\<close> (no sign, no leading zero but for
  \<open>0\<close> itself).
\<close>

definition is_digit :: "char \<Rightarrow> bool" where
  "is_digit c \<longleftrightarrow> CHR ''0'' \<le> c \<and> c \<le> CHR ''9''"

definition array_index :: "string \<Rightarrow> nat option" where
  "array_index key =
     (if key \<noteq> [] \<and> list_all is_digit key \<and> toString (parse key) = key
         \<and> int (parse key) < 4294967295
      then Some (parse key) else None)"

text \<open>
  The assignment \<^verbatim>\<open>obj[k] = v\<close> on an object given by its entries: an existing key keeps
  its place, a new key is added last. This is the order in which the properties are
  created; \<open>own_property_order\<close> below gives the order in which they are enumerated. Where
  the model assigns keys in the enumeration order of another object, the two agree.
\<close>

definition obj_set :: "('k \<times> 'v) list \<Rightarrow> 'k \<Rightarrow> 'v \<Rightarrow> ('k \<times> 'v) list" where
  "obj_set obj k v =
     (if k \<in> fst ` set obj then map (\<lambda>(k', v'). if k' = k then (k', v) else (k', v')) obj
      else obj @ [(k, v)])"

text \<open>
  The order in which \<^verbatim>\<open>Object.entries\<close>, \<^verbatim>\<open>Object.keys\<close> and \<^verbatim>\<open>Object.values\<close> enumerate
  an object whose properties were created in the given order: the array indices first, in
  ascending numeric order, then the other keys in the order of their creation.
\<close>

definition own_property_order :: "(string \<times> 'v) list \<Rightarrow> (string \<times> 'v) list" where
  "own_property_order created =
     sort_key (\<lambda>(k, v). case array_index k of None \<Rightarrow> 0 | Some i \<Rightarrow> i)
       (filter (\<lambda>(k, v). array_index k \<noteq> None) created)
     @ filter (\<lambda>(k, v). array_index k = None) created"

text \<open>
  \<^verbatim>\<open>Object.fromEntries(entries)\<close>, as the list of entries the new object enumerates: each
  entry is assigned in turn.
\<close>

definition Object_fromEntries :: "(string \<times> 'v) list \<Rightarrow> (string \<times> 'v) list" where
  "Object_fromEntries entries =
     own_property_order (fold (\<lambda>(k, v) obj. obj_set obj k v) entries [])"

text \<open>
  \<^verbatim>\<open>a.localeCompare(b)\<close> compares by the collation of the browser's locale. The collation
  is a parameter: \<open>collate\<close> maps a string to its collation key in some linear order.
\<close>

definition localeCompare :: "(string \<Rightarrow> 'k::linorder) \<Rightarrow> string \<Rightarrow> string \<Rightarrow> real" where
  "localeCompare collate a b =
     (if collate a < collate b then - 1 else if collate a = collate b then 0 else 1)"

section \<open>Data model (\<^verbatim>\<open>types/index.ts\<close>)\<close>

text \<open>
  The interface \<^verbatim>\<open>Part\<close>. The property \<^verbatim>\<open>notes\<close> is the field \<open>notes'\<close>, and the
  properties \<^verbatim>\<open>'Dealer_vs_Std_%'\<close> and \<^verbatim>\<open>'Customer_vs_Std_%'\<close> are the fields
  \<open>Dealer_vs_Std_pct\<close> and \<open>Customer_vs_Std_pct\<close>.
\<close>

record Part =
  Material :: "string option"
  SPRAS_EN :: "string option"
  Standard_Price :: "real option"
  Current_Stock_Qty :: "real option"
  Sales_Qty_PGI_2025 :: "real option"
  Sales_Qty_SO_2025 :: "real option"
  Invoice_Amount_2025 :: "real option"
  Invoice_Currency :: "string option"
  Sales_Currency :: "string option"
  Sales_Unit :: "string option"
  Dealer_Price :: "real option"
  Customer_Price :: "real option"
  Dealer_vs_Std_pct :: "real option"
  Customer_vs_Std_pct :: "real option"
  Purchase_Qty_2025_to_Date :: "real option"
  Supplier_Name :: "string option"
  notes' :: "string option"
  year :: "string option"
  obsoleted_date :: "string option"
  alternative_parts :: "string option"

text \<open>The object \<^verbatim>\<open>{}\<close> read as a part: no property is set.\<close>

definition empty_part :: Part where
  "empty_part =
     \<lparr>Material = None, SPRAS_EN = None, Standard_Price = None, Current_Stock_Qty = None,
      Sales_Qty_PGI_2025 = None, Sales_Qty_SO_2025 = None, Invoice_Amount_2025 = None,
      Invoice_Currency = None, Sales_Currency = None, Sales_Unit = None,
      Dealer_Price = None, Customer_Price = None, Dealer_vs_Std_pct = None,
      Customer_vs_Std_pct = None, Purchase_Qty_2025_to_Date = None, Supplier_Name = None,
      notes' = None, year = None, obsoleted_date = None, alternative_parts = None\<rparr>"

text \<open>The unions \<^verbatim>\<open>'low' | 'medium' | 'high'\<close> and \<^verbatim>\<open>'pending' | 'approved' | 'rejected'\<close>.\<close>

datatype priority = low | medium | high

datatype status = pending | approved | rejected

text \<open>The interface \<^verbatim>\<open>PartApplication\<close> of \<^verbatim>\<open>types/index.ts\<close>.\<close>

record PartApplication =
  ticket_id :: string
  supplier_name :: string
  part_description :: string
  part_number :: string
  requested_by :: string
  department :: string
  urgency :: priority
  technical_specs :: string
  application_notes :: string
  estimated_cost :: real
  justification :: string
  image_url :: "string option"
  status :: status
  created_at :: real

section \<open>Catalogue page (\<^verbatim>\<open>pages/parts-catalogue.tsx\<close>)\<close>

subsection \<open>Filter\<close>

definition matchesSupplier :: "string \<Rightarrow> Part \<Rightarrow> bool" where
  "matchesSupplier selectedSupplier part \<longleftrightarrow>
     selectedSupplier = ''all'' \<or> Supplier_Name part = Some selectedSupplier"

definition matchesStock :: "bool \<Rightarrow> Part \<Rightarrow> bool" where
  "matchesStock showInStockOnly part \<longleftrightarrow>
     \<not> showInStockOnly \<or> num_or0 (Current_Stock_Qty part) > 0"

definition catalogue_filtered ::
  "(string \<times> Part) list \<Rightarrow> string \<Rightarrow> bool \<Rightarrow> (string \<times> Part) list" where
  "catalogue_filtered allParts selectedSupplier showInStockOnly =
     filter (\<lambda>(material, part).
        matchesSupplier selectedSupplier part \<and> matchesStock showInStockOnly part) allParts"

subsection \<open>Sort\<close>

definition catalogue_compare ::
  "(string \<Rightarrow> 'k::linorder) \<Rightarrow> string \<Rightarrow> string \<times> Part \<Rightarrow> string \<times> Part \<Rightarrow> real" where
  "catalogue_compare collate sortBy a b =
     (case (a, b) of ((materialA, partA), (materialB, partB)) \<Rightarrow>
        if sortBy = ''price'' then
          num_or0 (Standard_Price partA) - num_or0 (Standard_Price partB)
        else if sortBy = ''stock'' then
          num_or0 (Current_Stock_Qty partB) - num_or0 (Current_Stock_Qty partA)
        else if sortBy = ''supplier'' then
          localeCompare collate (str_or_empty (Supplier_Name partA))
            (str_or_empty (Supplier_Name partB))
        else localeCompare collate materialA materialB)"

text \<open>\<^verbatim>\<open>filtered.sort(...)\<close> and the memo \<^verbatim>\<open>filteredAndSortedParts\<close>.\<close>

definition catalogue_sorted ::
  "(string \<Rightarrow> 'k::linorder) \<Rightarrow> string \<Rightarrow> (string \<times> Part) list \<Rightarrow> (string \<times> Part) list" where
  "catalogue_sorted collate sortBy filtered = js_sort (catalogue_compare collate sortBy) filtered"

definition catalogue_filteredAndSortedParts ::
  "(string \<Rightarrow> 'k::linorder) \<Rightarrow> (string \<times> Part) list \<Rightarrow> string \<Rightarrow> string \<Rightarrow> bool
     \<Rightarrow> (string \<times> Part) list" where
  "catalogue_filteredAndSortedParts collate allParts selectedSupplier sortBy showInStockOnly =
     catalogue_sorted collate sortBy
       (catalogue_filtered allParts selectedSupplier showInStockOnly)"

subsection \<open>Paginate\<close>

text \<open>
  The pagination effect of the catalogue page and the memo \<^verbatim>\<open>paginatedParts\<close> of the summary
  page are the same code: \<^verbatim>\<open>slice(startIndex, endIndex)\<close> with
  \<^verbatim>\<open>startIndex = (currentPage - 1) * itemsPerPage\<close>, and
  \<^verbatim>\<open>Math.ceil(length / itemsPerPage)\<close> pages. The summary page renders the slice, an array;
  the catalogue page stores it as \<^verbatim>\<open>Object.fromEntries(paginatedParts)\<close>.
\<close>

definition itemsPerPage :: int where
  "itemsPerPage = 50"

definition paginatedParts :: "'a list \<Rightarrow> int \<Rightarrow> 'a list" where
  "paginatedParts filteredAndSortedParts currentPage =
     (let startIndex = (currentPage - 1) * itemsPerPage;
          endIndex = startIndex + itemsPerPage
      in js_slice filteredAndSortedParts startIndex endIndex)"

definition totalPages :: "'a list \<Rightarrow> int" where
  "totalPages filteredAndSortedParts =
     \<lceil>real (length filteredAndSortedParts) / real_of_int itemsPerPage\<rceil>"

text \<open>
  The state \<^verbatim>\<open>displayedParts\<close> of the catalogue page, which the grid renders with
  \<^verbatim>\<open>Object.entries(displayedParts).map(...)\<close>: the list is the order of the cards.
\<close>

definition displayedParts :: "(string \<times> Part) list \<Rightarrow> int \<Rightarrow> (string \<times> Part) list" where
  "displayedParts filteredAndSortedParts currentPage =
     Object_fromEntries (paginatedParts filteredAndSortedParts currentPage)"

section \<open>Summary page (\<^verbatim>\<open>pages/parts-summary.tsx\<close>)\<close>

text \<open>
  The rows of the summary page are the parts with \<^verbatim>\<open>Material\<close> set to the key:
  \<^verbatim>\<open>Object.entries(partsData).map(([material, part]) => ({...part, Material: material}))\<close>.
\<close>

definition partsArray :: "(string \<times> Part) list \<Rightarrow> Part list" where
  "partsArray partsData = map (\<lambda>(material, part). part\<lparr>Material := Some material\<rparr>) partsData"

text \<open>The value of a property read dynamically (\<^verbatim>\<open>a[sortField]\<close>).\<close>

datatype jsval = JUndefined | JNumber real | JString string

definition of_num :: "real option \<Rightarrow> jsval" where
  "of_num x = (case x of None \<Rightarrow> JUndefined | Some v \<Rightarrow> JNumber v)"

definition of_str :: "string option \<Rightarrow> jsval" where
  "of_str x = (case x of None \<Rightarrow> JUndefined | Some v \<Rightarrow> JString v)"

text \<open>\<^verbatim>\<open>keyof PartSummaryData\<close>.\<close>

datatype sort_field =
    F_Material | F_SPRAS_EN | F_Standard_Price | F_Current_Stock_Qty
  | F_Sales_Qty_PGI_2025 | F_Sales_Qty_SO_2025 | F_Invoice_Amount_2025
  | F_Invoice_Currency | F_Sales_Currency | F_Sales_Unit | F_Dealer_Price
  | F_Customer_Price | F_Dealer_vs_Std_pct | F_Customer_vs_Std_pct
  | F_Purchase_Qty_2025_to_Date | F_Supplier_Name

fun field_value :: "sort_field \<Rightarrow> Part \<Rightarrow> jsval" where
  "field_value F_Material a = of_str (Material a)"
| "field_value F_SPRAS_EN a = of_str (SPRAS_EN a)"
| "field_value F_Standard_Price a = of_num (Standard_Price a)"
| "field_value F_Current_Stock_Qty a = of_num (Current_Stock_Qty a)"
| "field_value F_Sales_Qty_PGI_2025 a = of_num (Sales_Qty_PGI_2025 a)"
| "field_value F_Sales_Qty_SO_2025 a = of_num (Sales_Qty_SO_2025 a)"
| "field_value F_Invoice_Amount_2025 a = of_num (Invoice_Amount_2025 a)"
| "field_value F_Invoice_Currency a = of_str (Invoice_Currency a)"
| "field_value F_Sales_Currency a = of_str (Sales_Currency a)"
| "field_value F_Sales_Unit a = of_str (Sales_Unit a)"
| "field_value F_Dealer_Price a = of_num (Dealer_Price a)"
| "field_value F_Customer_Price a = of_num (Customer_Price a)"
| "field_value F_Dealer_vs_Std_pct a = of_num (Dealer_vs_Std_pct a)"
| "field_value F_Customer_vs_Std_pct a = of_num (Customer_vs_Std_pct a)"
| "field_value F_Purchase_Qty_2025_to_Date a = of_num (Purchase_Qty_2025_to_Date a)"
| "field_value F_Supplier_Name a = of_str (Supplier_Name a)"

text \<open>\<^verbatim>\<open>v || 0\<close>: \<^verbatim>\<open>undefined\<close>, \<^verbatim>\<open>0\<close> and the empty string are falsy.\<close>

definition val_or0 :: "jsval \<Rightarrow> jsval" where
  "val_or0 v =
     (case v of
        JUndefined \<Rightarrow> JNumber 0
      | JNumber n \<Rightarrow> JNumber n
      | JString s \<Rightarrow> (if s = [] then JNumber 0 else JString s))"

text \<open>
  \<^verbatim>\<open>Number(v) || 0\<close>. The numeric reading of a string (\<^verbatim>\<open>Number(s)\<close>, \<^verbatim>\<open>NaN\<close> when the
  string is no numeral) is the parameter \<open>numeric\<close>, with \<^const>\<open>None\<close> for \<^verbatim>\<open>NaN\<close>.
\<close>

definition Number_or0 :: "(string \<Rightarrow> real option) \<Rightarrow> jsval \<Rightarrow> real" where
  "Number_or0 numeric v =
     (case v of
        JUndefined \<Rightarrow> 0
      | JNumber n \<Rightarrow> n
      | JString s \<Rightarrow> num_or0 (numeric s))"

datatype sort_direction = asc | desc

definition summary_compare ::
  "(string \<Rightarrow> 'k::linorder) \<Rightarrow> (string \<Rightarrow> real option) \<Rightarrow> sort_field \<Rightarrow> sort_direction
     \<Rightarrow> Part \<Rightarrow> Part \<Rightarrow> real" where
  "summary_compare collate numeric sortField sortDirection a b =
     (let aValue = val_or0 (field_value sortField a);
          bValue = val_or0 (field_value sortField b)
      in case (aValue, bValue) of
           (JString sa, JString sb) \<Rightarrow>
             (if sortDirection = asc then localeCompare collate sa sb
              else localeCompare collate sb sa)
         | _ \<Rightarrow>
             (let aNum = Number_or0 numeric aValue;
                  bNum = Number_or0 numeric bValue
              in if sortDirection = asc then aNum - bNum else bNum - aNum))"

text \<open>The sort step of the memo \<^verbatim>\<open>filteredAndSortedParts\<close> of the summary page.\<close>

definition summary_sorted ::
  "(string \<Rightarrow> 'k::linorder) \<Rightarrow> (string \<Rightarrow> real option) \<Rightarrow> sort_field \<Rightarrow> sort_direction
     \<Rightarrow> Part list \<Rightarrow> Part list" where
  "summary_sorted collate numeric sortField sortDirection filtered =
     js_sort (summary_compare collate numeric sortField sortDirection) filtered"

section \<open>Store service (\<^verbatim>\<open>services/firebase.ts\<close>)\<close>

text \<open>\<^verbatim>\<open>s.includes(sub)\<close>: \<open>sub\<close> occurs in \<open>s\<close> as a contiguous substring.\<close>

fun js_includes :: "string \<Rightarrow> string \<Rightarrow> bool" where
  "js_includes [] sub = (sub = [])"
| "js_includes (c # cs) sub = (take (length sub) (c # cs) = sub \<or> js_includes cs sub)"

subsection \<open>The remote database\<close>

text \<open>
  The Realtime Database holds a tree; the service reads and writes the children of three
  nodes. A node is the list of its children in key order, which is the order in which the
  store enumerates them. \<open>online\<close> says whether a request reaches the store: a request
  that does not is rejected, and the \<^verbatim>\<open>await\<close> throws.
\<close>

datatype store_error = RemoteStoreError | InvalidArgument

record database =
  online :: bool
  material_summary_2025 :: "(string \<times> Part) list"
  Parts :: "(string \<times> Part) list"
  PartApplications :: "(string \<times> PartApplication) list"

text \<open>\<^verbatim>\<open>await get(ref(database, node))\<close>.\<close>

definition get :: "database \<Rightarrow> (database \<Rightarrow> 'a) \<Rightarrow> store_error + 'a" where
  "get db node = (if online db then Inr (node db) else Inl RemoteStoreError)"

text \<open>
  \<^verbatim>\<open>await get(query(ref(database, node), limitToFirst(limit)))\<close>; the SDK rejects a limit
  that is not a positive integer.
\<close>

definition get_limitToFirst :: "database \<Rightarrow> (database \<Rightarrow> 'a list) \<Rightarrow> int \<Rightarrow> store_error + 'a list" where
  "get_limitToFirst db node limit =
     (if limit \<le> 0 then Inl InvalidArgument
      else case get db node of Inl e \<Rightarrow> Inl e | Inr children \<Rightarrow> Inr (take (nat limit) children))"

subsection \<open>Parts\<close>

definition getAllParts :: "database \<Rightarrow> (string \<times> Part) list" where
  "getAllParts db = (case get db material_summary_2025 of Inl e \<Rightarrow> [] | Inr val \<Rightarrow> val)"

text \<open>
  \<^verbatim>\<open>searchParts(searchTerm, limit = 50)\<close>. \<^verbatim>\<open>toLowerCase\<close> is a parameter. The body of the
  \<^verbatim>\<open>forEach\<close> callback is \<open>search_step\<close>, its match test \<open>search_matches\<close>.
\<close>

definition default_limit :: int where
  "default_limit = 50"

definition search_matches :: "(string \<Rightarrow> string) \<Rightarrow> string \<Rightarrow> string \<times> Part \<Rightarrow> bool" where
  "search_matches toLowerCase searchLower entry =
     (case entry of (material, part) \<Rightarrow>
        let matchesMaterial = js_includes (toLowerCase material) searchLower;
            matchesDescription = js_includes (toLowerCase (str_or_empty (SPRAS_EN part))) searchLower;
            matchesSupplier = js_includes (toLowerCase (str_or_empty (Supplier_Name part))) searchLower
        in matchesMaterial \<or> matchesDescription \<or> matchesSupplier)"

definition search_step ::
  "(string \<Rightarrow> string) \<Rightarrow> string \<Rightarrow> int \<Rightarrow> string \<times> Part
     \<Rightarrow> (string \<times> Part) list \<times> int \<Rightarrow> (string \<times> Part) list \<times> int" where
  "search_step toLowerCase searchLower limit entry state =
     (case state of (filtered, count') \<Rightarrow>
        if count' \<ge> limit then (filtered, count')
        else if search_matches toLowerCase searchLower entry
          then (obj_set filtered (fst entry) (snd entry), count' + 1)
          else (filtered, count'))"

definition searchParts ::
  "(string \<Rightarrow> string) \<Rightarrow> database \<Rightarrow> string \<Rightarrow> int \<Rightarrow> (string \<times> Part) list" where
  "searchParts toLowerCase db searchTerm limit =
     (if searchTerm = [] then
        (case get_limitToFirst db material_summary_2025 limit of
           Inl e \<Rightarrow> []
         | Inr val \<Rightarrow> val)
      else
        (let allParts = getAllParts db;
             searchLower = toLowerCase searchTerm;
             (filtered, count') = fold (search_step toLowerCase searchLower limit) allParts ([], 0)
         in filtered))"

subsection \<open>Writing a child\<close>

text \<open>
  \<^verbatim>\<open>set(ref, value)\<close> on a child of a node: the child is replaced or added, and the node
  keeps its children in key order. Keys are compared as strings; the store puts keys that
  are decimal numerals first, which neither push keys nor the examples below are.
\<close>

text \<open>
  An optional property of an object that is written to the store: left out, present with
  the value \<^verbatim>\<open>undefined\<close>, or present with a value. \<^verbatim>\<open>set\<close> validates its argument and
  throws when a property is \<^verbatim>\<open>undefined\<close>; \<open>stored\<close> is the property as the store keeps it
  otherwise.
\<close>

datatype 'a property = Absent | Undefined | Value 'a

definition stored :: "'a property \<Rightarrow> 'a option" where
  "stored p = (case p of Absent \<Rightarrow> None | Undefined \<Rightarrow> None | Value v \<Rightarrow> Some v)"

definition node_set :: "(string \<times> 'a) list \<Rightarrow> string \<Rightarrow> 'a \<Rightarrow> (string \<times> 'a) list" where
  "node_set children k v = insort_key fst (k, v) (filter (\<lambda>c. fst c \<noteq> k) children)"

subsection \<open>Part applications\<close>

text \<open>
  \<^verbatim>\<open>submitPartApplication\<close>. \<open>key\<close> is \<^verbatim>\<open>push(applicationsRef).key\<close>, which the SDK
  generates on the client, and \<open>now\<close> is \<^verbatim>\<open>Date.now()\<close>. The argument of the function has
  every property of a \<^verbatim>\<open>PartApplication\<close> but \<^verbatim>\<open>ticket_id\<close> and \<^verbatim>\<open>created_at\<close>, which the
  function sets: \<open>application\<close> gives its required properties and \<open>imageUrl\<close> its optional
  property \<^verbatim>\<open>image_url\<close>, so that the fields \<open>ticket_id\<close>, \<open>created_at\<close> and \<open>image_url\<close> of
  \<open>application\<close> are not read. An error of the write is thrown again.
\<close>

definition submitPartApplication ::
  "database \<Rightarrow> string \<Rightarrow> real \<Rightarrow> PartApplication \<Rightarrow> string property
     \<Rightarrow> store_error + string \<times> database" where
  "submitPartApplication db key now application imageUrl =
     (let ticketId = key;
          fullApplication =
            application\<lparr>ticket_id := ticketId, created_at := now, image_url := stored imageUrl\<rparr>
      in if imageUrl = Undefined then Inl InvalidArgument
         else if online db
         then Inr (ticketId,
                db\<lparr>PartApplications := node_set (PartApplications db) ticketId fullApplication\<rparr>)
         else Inl RemoteStoreError)"

text \<open>
  The snapshot of a query with \<^verbatim>\<open>orderByChild\<close> knows its children in two orders.
  \<^verbatim>\<open>snapshot.forEach\<close> visits them in the order of the query, that is, by the child value
  and then by key. \<^verbatim>\<open>snapshot.val()\<close> returns a plain object with one property per child;
  the SDK builds it from the node by key, so its enumeration order is the key order, not
  the order of the query. (The SDK's documentation of \<^verbatim>\<open>forEach\<close> says so: the order of the
  object \<^verbatim>\<open>val()\<close> returns is not guaranteed to match the order of the query.) An empty
  node has the value \<^verbatim>\<open>null\<close>, modelled by the empty list.
\<close>

record 'a snapshot =
  by_key :: "(string \<times> 'a) list"
  by_query :: "(string \<times> 'a) list"

text \<open>\<^verbatim>\<open>await get(query(ref(database, node), orderByChild(child)))\<close>.\<close>

definition get_orderByChild ::
  "database \<Rightarrow> (database \<Rightarrow> (string \<times> 'a) list) \<Rightarrow> ('a \<Rightarrow> real) \<Rightarrow> store_error + 'a snapshot" where
  "get_orderByChild db node child =
     (case get db node of
        Inl e \<Rightarrow> Inl e
      | Inr children \<Rightarrow>
          Inr \<lparr>by_key = children, by_query = sort_key (\<lambda>c. child (snd c)) children\<rparr>)"

definition val :: "'a snapshot \<Rightarrow> (string \<times> 'a) list" where
  "val snapshot = by_key snapshot"

definition forEach_order :: "'a snapshot \<Rightarrow> (string \<times> 'a) list" where
  "forEach_order snapshot = by_query snapshot"

text \<open>\<^verbatim>\<open>getAllPartApplications\<close>: \<^verbatim>\<open>Object.values(data).reverse()\<close> of \<^verbatim>\<open>snapshot.val()\<close>.\<close>

definition getAllPartApplications :: "database \<Rightarrow> PartApplication list" where
  "getAllPartApplications db =
     (case get_orderByChild db PartApplications created_at of
        Inl e \<Rightarrow> []
      | Inr snapshot \<Rightarrow>
          (let data = val snapshot
           in if data = [] then [] else rev (map snd data)))"

subsection \<open>Merge update of a part\<close>

text \<open>
  The fields of \<open>PartUpdates\<close> are the properties \<^verbatim>\<open>notes\<close>, \<^verbatim>\<open>year\<close>,
  \<^verbatim>\<open>obsoleted_date\<close> and \<^verbatim>\<open>alternative_parts\<close> of the object passed as \<^verbatim>\<open>updates\<close>.
\<close>

record PartUpdates =
  upd_notes :: "string property"
  upd_year :: "string property"
  upd_obsoleted_date :: "string property"
  upd_alternative_parts :: "string property"

text \<open>
  One property of \<^verbatim>\<open>{ ...currentData.val(), ...updates }\<close>: the spread copies every own
  property of \<open>updates\<close>, also one whose value is \<^verbatim>\<open>undefined\<close>.
\<close>

definition spread_prop :: "string option \<Rightarrow> string property \<Rightarrow> string property" where
  "spread_prop current upd =
     (case upd of
        Absent \<Rightarrow> (case current of None \<Rightarrow> Absent | Some v \<Rightarrow> Value v)
      | Undefined \<Rightarrow> Undefined
      | Value v \<Rightarrow> Value v)"

text \<open>A node with no property does not exist in the store: writing \<^verbatim>\<open>{}\<close> removes it.\<close>

definition set_part :: "(string \<times> Part) list \<Rightarrow> string \<Rightarrow> Part \<Rightarrow> (string \<times> Part) list" where
  "set_part children k p =
     (if p = empty_part then filter (\<lambda>c. fst c \<noteq> k) children else node_set children k p)"

text \<open>
  \<^verbatim>\<open>updatePartData\<close>. \<^verbatim>\<open>set\<close> validates its argument and throws when a property is
  \<^verbatim>\<open>undefined\<close>; the function throws every error again. \<^verbatim>\<open>{...null}\<close> is \<^verbatim>\<open>{}\<close>.
\<close>

definition updatePartData ::
  "database \<Rightarrow> string \<Rightarrow> PartUpdates \<Rightarrow> store_error + database" where
  "updatePartData db material updates =
     (case get db (\<lambda>d. map_of (Parts d) material) of
        Inl e \<Rightarrow> Inl e
      | Inr currentData \<Rightarrow>
          (let current = (case currentData of None \<Rightarrow> empty_part | Some p \<Rightarrow> p);
               n = spread_prop (notes' current) (upd_notes updates);
               y = spread_prop (year current) (upd_year updates);
               ob = spread_prop (obsoleted_date current) (upd_obsoleted_date updates);
               al = spread_prop (alternative_parts current) (upd_alternative_parts updates)
           in if n = Undefined \<or> y = Undefined \<or> ob = Undefined \<or> al = Undefined
              then Inl InvalidArgument
              else Inr (db\<lparr>Parts := set_part (Parts db) material
                          (current\<lparr>notes' := stored n, year := stored y,
                                    obsoleted_date := stored ob,
                                    alternative_parts := stored al\<rparr>)\<rparr>)))"

section \<open>Part application page (\<^verbatim>\<open>pages/part-application.tsx\<close>)\<close>

text \<open>
  The page keeps the submitted applications in component state. \<open>FormData\<close> is the state
  \<^verbatim>\<open>formData\<close>, \<open>Application\<close> the page's own interface \<^verbatim>\<open>PartApplication\<close>
  (\<^verbatim>\<open>{...formData, ticketId, submittedAt, status}\<close>); the field \<^verbatim>\<open>notes\<close> is \<open>form_notes\<close>.
\<close>

record FormData =
  requestedBy :: string
  department :: string
  priority :: priority
  quantity :: string
  specifications :: string
  supplier :: string
  estimatedCost :: string
  deliveryDate :: string
  form_notes :: string

record Application = FormData +
  ticketId :: string
  submittedAt :: string
  status :: status

datatype message_type = success | error

record page_state =
  isSubmitting :: bool
  applications :: "Application list"
  message :: "(message_type \<times> string) option"
  formData :: FormData

definition initial_form :: FormData where
  "initial_form =
     \<lparr>requestedBy = [], department = [], priority = medium, quantity = [],
      specifications = [], supplier = [], estimatedCost = [], deliveryDate = [],
      form_notes = []\<rparr>"

definition initial_state :: page_state where
  "initial_state =
     \<lparr>isSubmitting = False, applications = [], message = None, formData = initial_form\<rparr>"

text \<open>\<^verbatim>\<open>s.padStart(targetLength, padChar)\<close> for a one-character pad string.\<close>

definition padStart :: "nat \<Rightarrow> char \<Rightarrow> string \<Rightarrow> string" where
  "padStart targetLength padChar s = replicate (targetLength - length s) padChar @ s"

definition generateTicketId :: "Application list \<Rightarrow> string" where
  "generateTicketId apps =
     (let nextNumber = length apps + 1
      in ''Part'' @ padStart 2 (CHR ''0'') (toString nextNumber))"

text \<open>
  \<^verbatim>\<open>showMessage\<close> also starts a timer that clears the message after five seconds; the timer
  is the step \<open>expire\<close> of \<open>reachable\<close> below. \<open>now\<close> is \<^verbatim>\<open>new Date().toISOString()\<close> at
  the time of the call.
\<close>

definition resetForm :: "page_state \<Rightarrow> page_state" where
  "resetForm st = st\<lparr>formData := initial_form\<rparr>"

definition showMessage :: "message_type \<Rightarrow> string \<Rightarrow> page_state \<Rightarrow> page_state" where
  "showMessage type text st = st\<lparr>message := Some (type, text)\<rparr>"

definition handleSubmit :: "string \<Rightarrow> page_state \<Rightarrow> page_state" where
  "handleSubmit now st =
     (let fd = formData st in
      if requestedBy fd = [] \<or> department fd = [] \<or> quantity fd = [] \<or> specifications fd = []
      then showMessage error ''Please fill in all required fields'' st
      else
        (let st1 = st\<lparr>isSubmitting := True\<rparr>;
             ticketId = generateTicketId (applications st1);
             newApplication = FormData.extend fd (Application.fields ticketId now pending);
             st2 = st1\<lparr>applications := applications st1 @ [newApplication]\<rparr>;
             st3 = showMessage success
                     (''Part application '' @ ticketId @ '' submitted successfully!'') st2;
             st4 = resetForm st3
         in st4\<lparr>isSubmitting := False\<rparr>))"

text \<open>
  The states the page can be in: it starts with no applications; the user edits the form
  or submits it, a message expires, and \<^verbatim>\<open>downloadPDF\<close> sets the busy flag and shows a
  message.
\<close>

inductive reachable :: "page_state \<Rightarrow> bool" where
  start: "reachable initial_state"
| edit: "reachable st \<Longrightarrow> reachable (st\<lparr>formData := fd\<rparr>)"
| submit: "reachable st \<Longrightarrow> reachable (handleSubmit now st)"
| expire: "reachable st \<Longrightarrow> reachable (st\<lparr>message := None\<rparr>)"
| busy: "reachable st \<Longrightarrow> reachable (st\<lparr>isSubmitting := b\<rparr>)"
| notify: "reachable st \<Longrightarrow> reachable (showMessage type text st)"

text \<open>Notions used in the proofs about ticket ids.\<close>

definition accepted :: "FormData \<Rightarrow> bool" where
  "accepted fd \<longleftrightarrow>
     requestedBy fd \<noteq> [] \<and> department fd \<noteq> [] \<and> quantity fd \<noteq> [] \<and> specifications fd \<noteq> []"


section \<open>Admin page (\<^verbatim>\<open>pages/admin.tsx\<close>)\<close>

text \<open>
  \<^verbatim>\<open>handleSavePartData\<close>. The four inputs are the states \<^verbatim>\<open>notes\<close>, \<^verbatim>\<open>year\<close>,
  \<^verbatim>\<open>obsoletedDate\<close> and \<^verbatim>\<open>alternativeParts\<close>; \<^verbatim>\<open>s.trim() || undefined\<close> is \<open>or_undefined\<close>
  of the trimmed input, and \<^verbatim>\<open>trim\<close> is a parameter. On success the page merges the
  updates into its own copy of the parts.
\<close>

definition or_undefined :: "string \<Rightarrow> string property" where
  "or_undefined s = (if s = [] then Undefined else Value s)"

record admin_state =
  parts :: "(string \<times> Part) list"
  selectedPart :: "(string \<times> Part) option"
  notes_input :: string
  year_input :: string
  obsoletedDate :: string
  alternativeParts :: string
  admin_message :: "(message_type \<times> string) option"
  isSaving :: bool

text \<open>\<^verbatim>\<open>handlePartSelect\<close>: the four inputs show the selected part's current values.\<close>

definition handlePartSelect :: "string \<Rightarrow> Part \<Rightarrow> admin_state \<Rightarrow> admin_state" where
  "handlePartSelect material part st =
     st\<lparr>selectedPart := Some (material, part),
        notes_input := str_or_empty (notes' part),
        year_input := str_or_empty (year part),
        obsoletedDate := str_or_empty (obsoleted_date part),
        alternativeParts := str_or_empty (alternative_parts part)\<rparr>"

definition local_merge :: "Part \<Rightarrow> PartUpdates \<Rightarrow> Part" where
  "local_merge current updates =
     current\<lparr>notes' := stored (spread_prop (notes' current) (upd_notes updates)),
             year := stored (spread_prop (year current) (upd_year updates)),
             obsoleted_date :=
               stored (spread_prop (obsoleted_date current) (upd_obsoleted_date updates)),
             alternative_parts :=
               stored (spread_prop (alternative_parts current) (upd_alternative_parts updates))\<rparr>"

definition handleSavePartData ::
  "(string \<Rightarrow> string) \<Rightarrow> database \<times> admin_state \<Rightarrow> database \<times> admin_state" where
  "handleSavePartData trim s =
     (case s of (db, st) \<Rightarrow>
        case selectedPart st of
          None \<Rightarrow> (db, st)
        | Some (material, part) \<Rightarrow>
            (let updates =
                   \<lparr>upd_notes = or_undefined (trim (notes_input st)),
                    upd_year = or_undefined (trim (year_input st)),
                    upd_obsoleted_date = or_undefined (trim (obsoletedDate st)),
                    upd_alternative_parts = or_undefined (trim (alternativeParts st))\<rparr>
             in case updatePartData db material updates of
                  Inr db' \<Rightarrow>
                    (db', st\<lparr>parts := obj_set (parts st) material
                                 (local_merge
                                    (case map_of (parts st) material of
                                       None \<Rightarrow> empty_part | Some p \<Rightarrow> p) updates),
                              admin_message :=
                                Some (success, ''Part data updated successfully for '' @ material),
                              isSaving := False\<rparr>)
                | Inl e \<Rightarrow>
                    (db, st\<lparr>admin_message := Some (error, ''Failed to update part data''),
                             isSaving := False\<rparr>)))"

text \<open>Notions used in the statements about the merge update.\<close>

definition merged_prop :: "string option \<Rightarrow> string property \<Rightarrow> string option" where
  "merged_prop current upd =
     (case upd of Absent \<Rightarrow> current | Undefined \<Rightarrow> None | Value v \<Rightarrow> Some v)"

definition merged_part :: "Part \<Rightarrow> PartUpdates \<Rightarrow> Part" where
  "merged_part p u =
     p\<lparr>notes' := merged_prop (notes' p) (upd_notes u),
       year := merged_prop (year p) (upd_year u),
       obsoleted_date := merged_prop (obsoleted_date p) (upd_obsoleted_date u),
       alternative_parts := merged_prop (alternative_parts p) (upd_alternative_parts u)\<rparr>"

definition defined_updates :: "PartUpdates \<Rightarrow> bool" where
  "defined_updates u \<longleftrightarrow>
     upd_notes u \<noteq> Undefined \<and> upd_year u \<noteq> Undefined
     \<and> upd_obsoleted_date u \<noteq> Undefined \<and> upd_alternative_parts u \<noteq> Undefined"

section \<open>PDF export (\<^verbatim>\<open>services/pdf.ts\<close>)\<close>

text \<open>
  The export is a sequence of calls on a jsPDF document; the model returns the calls in
  order. \<open>SetFont name style\<close> is \<^verbatim>\<open>setFont(name, style)\<close>, with no style when the call
  gives none; \<open>Text lines x y centred\<close> is \<^verbatim>\<open>text(lines, x, y)\<close>, where a single string is a
  list of one line and \<open>centred\<close> stands for \<^verbatim>\<open>{ align: 'center' }\<close>; \<open>AddImage\<close> and
  \<open>Save\<close> are \<^verbatim>\<open>addImage\<close> and \<^verbatim>\<open>save\<close>.
\<close>

datatype language = en | zh

datatype font_style = normal | bold

datatype pdf_op =
    SetFont string "font_style option"
  | SetFontSize real
  | Text "string list" real real bool
  | AddPage
  | AddImage string string real real real real
  | Save string

text \<open>
  What the export takes from its environment: the page size of the document, jsPDF's
  \<^verbatim>\<open>splitTextToSize\<close>, \<^verbatim>\<open>formatDate\<close> and \<^verbatim>\<open>formatCurrency\<close> of \<^verbatim>\<open>lib/utils.ts\<close> (which
  format by the browser's \<^verbatim>\<open>Intl\<close>), today's date as \<^verbatim>\<open>toLocaleDateString()\<close> and as
  \<^verbatim>\<open>toLocaleDateString('zh-CN')\<close>, the outcome of loading an image (\<^verbatim>\<open>onerror\<close>, or
  \<^verbatim>\<open>onload\<close> with the image's width and height), and the canvas rendering
  (\<^verbatim>\<open>toDataURL\<close> of the image drawn at a given size).
\<close>

datatype image_load = LoadFailed | Loaded real real

record pdf_env =
  pageWidth :: real
  pageHeight :: real
  splitTextToSize :: "string \<Rightarrow> real \<Rightarrow> string list"
  formatDate :: "real \<Rightarrow> string"
  formatCurrency :: "real \<Rightarrow> string"
  today :: string
  today_zh :: string
  load :: "string \<Rightarrow> image_load"
  toDataURL :: "string \<Rightarrow> real \<Rightarrow> real \<Rightarrow> string"

text \<open>
  The labels, \<^verbatim>\<open>language === 'zh' ? ... : ...\<close>. The Chinese text of the source is given
  by its UTF-8 bytes.
\<close>

definition title :: "language \<Rightarrow> string" where
  "title language =
     (if language = zh
      then [CHR 0xE9, CHR 0x9B, CHR 0xB6, CHR 0xE9, CHR 0x83, CHR 0xA8, CHR 0xE4, CHR 0xBB,
           CHR 0xB6, CHR 0xE7, CHR 0x94, CHR 0xB3, CHR 0xE8, CHR 0xAF, CHR 0xB7, CHR 0xE5,
           CHR 0x8D, CHR 0x95]
      else ''Part Application Form'')"

definition ticketLabel :: "language \<Rightarrow> string" where
  "ticketLabel language =
     (if language = zh
      then [CHR 0xE7, CHR 0x94, CHR 0xB3, CHR 0xE8, CHR 0xAF, CHR 0xB7, CHR 0xE5, CHR 0x8D,
           CHR 0x95, CHR 0xE5, CHR 0x8F, CHR 0xB7, CHR 0x3A]
      else ''Ticket ID:'')"

definition dateLabel :: "language \<Rightarrow> string" where
  "dateLabel language =
     (if language = zh
      then [CHR 0xE7, CHR 0x94, CHR 0xB3, CHR 0xE8, CHR 0xAF, CHR 0xB7, CHR 0xE6, CHR 0x97,
           CHR 0xA5, CHR 0xE6, CHR 0x9C, CHR 0x9F, CHR 0x3A]
      else ''Application Date:'')"

definition statusLabel :: "language \<Rightarrow> string" where
  "statusLabel language =
     (if language = zh
      then [CHR 0xE7, CHR 0x8A, CHR 0xB6, CHR 0xE6, CHR 0x80, CHR 0x81, CHR 0x3A]
      else ''Status:'')"

definition urgencyLabel :: "language \<Rightarrow> string" where
  "urgencyLabel language =
     (if language = zh
      then [CHR 0xE7, CHR 0xB4, CHR 0xA7, CHR 0xE6, CHR 0x80, CHR 0xA5, CHR 0xE7, CHR 0xA8,
           CHR 0x8B, CHR 0xE5, CHR 0xBA, CHR 0xA6, CHR 0x3A]
      else ''Urgency:'')"

definition partInfoTitle :: "language \<Rightarrow> string" where
  "partInfoTitle language =
     (if language = zh
      then [CHR 0xE9, CHR 0x9B, CHR 0xB6, CHR 0xE9, CHR 0x83, CHR 0xA8, CHR 0xE4, CHR 0xBB,
           CHR 0xB6, CHR 0xE4, CHR 0xBF, CHR 0xA1, CHR 0xE6, CHR 0x81, CHR 0xAF]
      else ''Part Information'')"

definition partNumberLabel :: "language \<Rightarrow> string" where
  "partNumberLabel language =
     (if language = zh
      then [CHR 0xE9, CHR 0x9B, CHR 0xB6, CHR 0xE9, CHR 0x83, CHR 0xA8, CHR 0xE4, CHR 0xBB,
           CHR 0xB6, CHR 0xE7, CHR 0xBC, CHR 0x96, CHR 0xE5, CHR 0x8F, CHR 0xB7, CHR 0x3A]
      else ''Part Number:'')"

definition supplierLabel :: "language \<Rightarrow> string" where
  "supplierLabel language =
     (if language = zh
      then [CHR 0xE4, CHR 0xBE, CHR 0x9B, CHR 0xE5, CHR 0xBA, CHR 0x94, CHR 0xE5, CHR 0x95,
           CHR 0x86, CHR 0x3A]
      else ''Supplier:'')"

definition descriptionLabel :: "language \<Rightarrow> string" where
  "descriptionLabel language =
     (if language = zh
      then [CHR 0xE9, CHR 0x9B, CHR 0xB6, CHR 0xE9, CHR 0x83, CHR 0xA8, CHR 0xE4, CHR 0xBB,
           CHR 0xB6, CHR 0xE6, CHR 0x8F, CHR 0x8F, CHR 0xE8, CHR 0xBF, CHR 0xB0, CHR 0x3A]
      else ''Description:'')"

definition requestInfoTitle :: "language \<Rightarrow> string" where
  "requestInfoTitle language =
     (if language = zh
      then [CHR 0xE7, CHR 0x94, CHR 0xB3, CHR 0xE8, CHR 0xAF, CHR 0xB7, CHR 0xE4, CHR 0xBF,
           CHR 0xA1, CHR 0xE6, CHR 0x81, CHR 0xAF]
      else ''Request Information'')"

definition requestedByLabel :: "language \<Rightarrow> string" where
  "requestedByLabel language =
     (if language = zh
      then [CHR 0xE7, CHR 0x94, CHR 0xB3, CHR 0xE8, CHR 0xAF, CHR 0xB7, CHR 0xE4, CHR 0xBA,
           CHR 0xBA, CHR 0x3A]
      else ''Requested By:'')"

definition departmentLabel :: "language \<Rightarrow> string" where
  "departmentLabel language =
     (if language = zh
      then [CHR 0xE9, CHR 0x83, CHR 0xA8, CHR 0xE9, CHR 0x97, CHR 0xA8, CHR 0x3A]
      else ''Department:'')"

definition estimatedCostLabel :: "language \<Rightarrow> string" where
  "estimatedCostLabel language =
     (if language = zh
      then [CHR 0xE9, CHR 0xA2, CHR 0x84, CHR 0xE4, CHR 0xBC, CHR 0xB0, CHR 0xE6, CHR 0x88,
           CHR 0x90, CHR 0xE6, CHR 0x9C, CHR 0xAC, CHR 0x3A]
      else ''Estimated Cost:'')"

definition techSpecsTitle :: "language \<Rightarrow> string" where
  "techSpecsTitle language =
     (if language = zh
      then [CHR 0xE6, CHR 0x8A, CHR 0x80, CHR 0xE6, CHR 0x9C, CHR 0xAF, CHR 0xE8, CHR 0xA7,
           CHR 0x84, CHR 0xE6, CHR 0xA0, CHR 0xBC]
      else ''Technical Specifications'')"

definition justificationTitle :: "language \<Rightarrow> string" where
  "justificationTitle language =
     (if language = zh
      then [CHR 0xE4, CHR 0xB8, CHR 0x9A, CHR 0xE5, CHR 0x8A, CHR 0xA1, CHR 0xE4, CHR 0xBE,
           CHR 0x9D, CHR 0xE6, CHR 0x8D, CHR 0xAE]
      else ''Business Justification'')"

definition notesTitle :: "language \<Rightarrow> string" where
  "notesTitle language =
     (if language = zh
      then [CHR 0xE9, CHR 0x99, CHR 0x84, CHR 0xE5, CHR 0x8A, CHR 0xA0, CHR 0xE8, CHR 0xAF,
           CHR 0xB4, CHR 0xE6, CHR 0x98, CHR 0x8E]
      else ''Additional Notes'')"

definition imageTitle :: "language \<Rightarrow> string" where
  "imageTitle language =
     (if language = zh
      then [CHR 0xE9, CHR 0x9B, CHR 0xB6, CHR 0xE9, CHR 0x83, CHR 0xA8, CHR 0xE4, CHR 0xBB,
           CHR 0xB6, CHR 0xE5, CHR 0x9B, CHR 0xBE, CHR 0xE7, CHR 0x89, CHR 0x87]
      else ''Part Image'')"

definition footerText :: "pdf_env \<Rightarrow> language \<Rightarrow> string" where
  "footerText env language =
     (if language = zh
      then [CHR 0xE7, CHR 0x94, CHR 0x9F, CHR 0xE6, CHR 0x88, CHR 0x90, CHR 0xE6, CHR 0x97,
           CHR 0xA5, CHR 0xE6, CHR 0x9C, CHR 0x9F, CHR 0x3A, CHR 0x20]
           @ today_zh env @
           [CHR 0x20, CHR 0x7C, CHR 0x20, CHR 0xE9, CHR 0x9B, CHR 0xB6, CHR 0xE9, CHR 0x83,
           CHR 0xA8, CHR 0xE4, CHR 0xBB, CHR 0xB6, CHR 0xE7, CHR 0x94, CHR 0xB3, CHR 0xE8,
           CHR 0xAF, CHR 0xB7, CHR 0xE7, CHR 0xB3, CHR 0xBB, CHR 0xE7, CHR 0xBB, CHR 0x9F]
      else ''Generated: '' @ today env @ '' | Parts Application System'')"

definition margin :: real where
  "margin = 20"

definition contentWidth :: "pdf_env \<Rightarrow> real" where
  "contentWidth env = pageWidth env - 2 * margin"

text \<open>\<^verbatim>\<open>status.toUpperCase()\<close> and \<^verbatim>\<open>urgency.toUpperCase()\<close> on the values of the unions.\<close>

fun status_upper :: "status \<Rightarrow> string" where
  "status_upper pending = ''PENDING''"
| "status_upper approved = ''APPROVED''"
| "status_upper rejected = ''REJECTED''"

fun urgency_upper :: "priority \<Rightarrow> string" where
  "urgency_upper low = ''LOW''"
| "urgency_upper medium = ''MEDIUM''"
| "urgency_upper high = ''HIGH''"

text \<open>
  Each block of the function takes the vertical position and returns its calls and the new
  position. \<open>part_fields\<close> and \<open>request_fields\<close> are the two \<^verbatim>\<open>forEach\<close> loops.
\<close>

definition header_block ::
  "pdf_env \<Rightarrow> language \<Rightarrow> PartApplication \<Rightarrow> real \<Rightarrow> pdf_op list \<times> real" where
  "header_block env language application yPosition =
     ([SetFont ''helvetica'' None,
       SetFontSize 20,
       SetFont ''helvetica'' (Some bold),
       Text [title language] (pageWidth env / 2) yPosition True,
       SetFontSize 12,
       SetFont ''helvetica'' (Some normal),
       Text [ticketLabel language @ '' '' @ ticket_id application] margin (yPosition + 15) False,
       Text [dateLabel language @ '' '' @ formatDate env (created_at application)]
         margin (yPosition + 15 + 10) False,
       SetFontSize 10,
       Text [statusLabel language @ '' '' @ status_upper (PartApplication.status application)]
         margin (yPosition + 15 + 10 + 15) False,
       Text [urgencyLabel language @ '' '' @ urgency_upper (urgency application)]
         (margin + 60) (yPosition + 15 + 10 + 15) False,
       SetFontSize 12],
      yPosition + 15 + 10 + 15 + 15)"

fun part_fields ::
  "pdf_env \<Rightarrow> (string \<times> string) list \<Rightarrow> real \<Rightarrow> pdf_op list \<times> real" where
  "part_fields env [] yPosition = ([], yPosition)"
| "part_fields env ((label, value) # fields') yPosition =
     (let lines = splitTextToSize env value (contentWidth env - 40);
          (ops, y) = part_fields env fields' (yPosition + real (length lines) * 5 + 3)
      in ([SetFont ''helvetica'' (Some bold),
           Text [label] margin yPosition False,
           SetFont ''helvetica'' (Some normal),
           Text lines (margin + 40) yPosition False] @ ops, y))"

definition part_info_block ::
  "pdf_env \<Rightarrow> language \<Rightarrow> PartApplication \<Rightarrow> real \<Rightarrow> pdf_op list \<times> real" where
  "part_info_block env language application yPosition =
     (let fields' = [(partNumberLabel language, part_number application),
                    (supplierLabel language, supplier_name application),
                    (descriptionLabel language, part_description application)];
          (ops, y) = part_fields env fields' (yPosition + 8)
      in ([SetFont ''helvetica'' (Some bold),
           Text [partInfoTitle language] margin yPosition False,
           SetFont ''helvetica'' (Some normal)] @ ops, y + 5))"

fun request_fields :: "(string \<times> string) list \<Rightarrow> real \<Rightarrow> pdf_op list \<times> real" where
  "request_fields [] yPosition = ([], yPosition)"
| "request_fields ((label, value) # fields') yPosition =
     (let (ops, y) = request_fields fields' (yPosition + 7)
      in ([SetFont ''helvetica'' (Some bold),
           Text [label] margin yPosition False,
           SetFont ''helvetica'' (Some normal),
           Text [value] (margin + 40) yPosition False] @ ops, y))"

definition request_info_block ::
  "pdf_env \<Rightarrow> language \<Rightarrow> PartApplication \<Rightarrow> real \<Rightarrow> pdf_op list \<times> real" where
  "request_info_block env language application yPosition =
     (let requestFields =
            [(requestedByLabel language, requested_by application),
             (departmentLabel language, PartApplication.department application),
             (estimatedCostLabel language, formatCurrency env (estimated_cost application))];
          (ops, y) = request_fields requestFields (yPosition + 8)
      in ([SetFont ''helvetica'' (Some bold),
           Text [requestInfoTitle language] margin yPosition False,
           SetFont ''helvetica'' (Some normal)] @ ops, y + 5))"

definition tech_specs_block ::
  "pdf_env \<Rightarrow> language \<Rightarrow> PartApplication \<Rightarrow> real \<Rightarrow> pdf_op list \<times> real" where
  "tech_specs_block env language application yPosition =
     (if technical_specs application \<noteq> [] then
        (let techLines = splitTextToSize env (technical_specs application) (contentWidth env)
         in ([SetFont ''helvetica'' (Some bold),
              Text [techSpecsTitle language] margin yPosition False,
              SetFont ''helvetica'' (Some normal),
              Text techLines margin (yPosition + 8) False],
             yPosition + 8 + (real (length techLines) * 5 + 10)))
      else ([], yPosition))"

text \<open>
  \<^verbatim>\<open>if (yPosition > pageHeight - room) { pdf.addPage(); yPosition = margin; }\<close>
\<close>

definition page_break :: "pdf_env \<Rightarrow> real \<Rightarrow> real \<Rightarrow> pdf_op list \<times> real" where
  "page_break env room yPosition =
     (if yPosition > pageHeight env - room then ([AddPage], margin) else ([], yPosition))"

definition justification_block ::
  "pdf_env \<Rightarrow> language \<Rightarrow> PartApplication \<Rightarrow> real \<Rightarrow> pdf_op list \<times> real" where
  "justification_block env language application yPosition =
     (if justification application \<noteq> [] then
        (let (break, y) = page_break env 60 yPosition;
             justificationLines =
               splitTextToSize env (justification application) (contentWidth env)
         in (break @
             [SetFont ''helvetica'' (Some bold),
              Text [justificationTitle language] margin y False,
              SetFont ''helvetica'' (Some normal),
              Text justificationLines margin (y + 8) False],
             y + 8 + (real (length justificationLines) * 5 + 10)))
      else ([], yPosition))"

definition notes_block ::
  "pdf_env \<Rightarrow> language \<Rightarrow> PartApplication \<Rightarrow> real \<Rightarrow> pdf_op list \<times> real" where
  "notes_block env language application yPosition =
     (if application_notes application \<noteq> [] then
        (let (break, y) = page_break env 40 yPosition;
             notesLines =
               splitTextToSize env (application_notes application) (contentWidth env)
         in (break @
             [SetFont ''helvetica'' (Some bold),
              Text [notesTitle language] margin y False,
              SetFont ''helvetica'' (Some normal),
              Text notesLines margin (y + 8) False],
             y + 8 + (real (length notesLines) * 5 + 10)))
      else ([], yPosition))"

text \<open>The size of the image in the \<^verbatim>\<open>onload\<close> handler.\<close>

definition scaled :: "real \<Rightarrow> real \<Rightarrow> real \<Rightarrow> real \<times> real" where
  "scaled maxWidth width height =
     (let maxHeight = 80;
          aspectRatio = width / height;
          (width1, height1) =
            (if width > maxWidth then (maxWidth, maxWidth / aspectRatio) else (width, height));
          (width2, height2) =
            (if height1 > maxHeight then (maxHeight * aspectRatio, maxHeight)
             else (width1, height1))
      in (width2, height2))"

text \<open>
  The image block. The heading is drawn before the image is loaded; \<^verbatim>\<open>onerror\<close> resolves
  the promise, so that the function goes on to the footer.
\<close>

definition image_block ::
  "pdf_env \<Rightarrow> language \<Rightarrow> PartApplication \<Rightarrow> real \<Rightarrow> pdf_op list \<times> real" where
  "image_block env language application yPosition =
     (case image_url application of
        None \<Rightarrow> ([], yPosition)
      | Some url \<Rightarrow>
          if url = [] then ([], yPosition)
          else
            (let (break, y) = page_break env 100 yPosition;
                 heading = [SetFont ''helvetica'' (Some bold),
                            Text [imageTitle language] margin y False]
             in case load env url of
                  LoadFailed \<Rightarrow> (break @ heading, y + 10)
                | Loaded w h \<Rightarrow>
                    (let (width, height) = scaled (contentWidth env) w h;
                         imgData = toDataURL env url (width * 3.78) (height * 3.78)
                     in (break @ heading @
                         [AddImage imgData ''JPEG'' margin (y + 10) width height], y + 10))))"

definition footer_block :: "pdf_env \<Rightarrow> language \<Rightarrow> PartApplication \<Rightarrow> pdf_op list" where
  "footer_block env language application =
     [SetFontSize 8,
      SetFont ''helvetica'' (Some normal),
      Text [footerText env language] (pageWidth env / 2) (pageHeight env - 15) True,
      Save (ticket_id application @ ''_'' @ (if language = zh then ''zh'' else ''en'') @ ''.pdf'')]"

definition generateApplicationPDF ::
  "pdf_env \<Rightarrow> language \<Rightarrow> PartApplication \<Rightarrow> pdf_op list" where
  "generateApplicationPDF env language application =
     (let (header, y1) = header_block env language application margin;
          (partInfo, y2) = part_info_block env language application y1;
          (requestInfo, y3) = request_info_block env language application y2;
          (techSpecs, y4) = tech_specs_block env language application y3;
          (justif, y5) = justification_block env language application y4;
          (addNotes, y6) = notes_block env language application y5;
          (image, y7) = image_block env language application y6
      in header @ partInfo @ requestInfo @ techSpecs @ justif @ addNotes @ image
         @ footer_block env language application)"

text \<open>
  Notions used in the statements about the export: the font style in force after a
  sequence of calls, the texts a sequence of calls draws, each with the style it is drawn
  in, the images it embeds, whether a ticket has an image reference, and the calls made
  before the image block.
\<close>

fun font_after :: "font_style \<Rightarrow> pdf_op list \<Rightarrow> font_style" where
  "font_after f [] = f"
| "font_after f (SetFont name (Some style) # ops) = font_after style ops"
| "font_after f (op # ops) = font_after f ops"

fun drawn :: "font_style \<Rightarrow> pdf_op list \<Rightarrow> (font_style \<times> string list) list" where
  "drawn f [] = []"
| "drawn f (SetFont name (Some style) # ops) = drawn style ops"
| "drawn f (Text lines x y centred # ops) = (f, lines) # drawn f ops"
| "drawn f (op # ops) = drawn f ops"


definition has_image :: "PartApplication \<Rightarrow> bool" where
  "has_image a \<longleftrightarrow> (case image_url a of None \<Rightarrow> False | Some url \<Rightarrow> url \<noteq> [])"


section \<open>Example data\<close>

definition example_parts :: "(string \<times> Part) list" where
  "example_parts =
     [(''A100'', empty_part\<lparr>Supplier_Name := Some ''Acme'', Current_Stock_Qty := Some 3,
                 Standard_Price := Some 12\<rparr>),
      (''B200'', empty_part\<lparr>Supplier_Name := Some ''Bolt'', Current_Stock_Qty := Some 0,
                 Standard_Price := Some 7\<rparr>),
      (''C300'', empty_part\<lparr>Supplier_Name := Some ''Acme'', Standard_Price := Some 12\<rparr>),
      (''D400'', empty_part\<lparr>Supplier_Name := Some ''Bolt'', Current_Stock_Qty := Some 5\<rparr>)]"

definition example_rows :: "Part list" where
  "example_rows =
     [empty_part\<lparr>Material := Some ''A100'', Standard_Price := Some 12\<rparr>,
      empty_part\<lparr>Material := Some ''B200'', Standard_Price := Some 7\<rparr>,
      empty_part\<lparr>Material := Some ''C300''\<rparr>,
      empty_part\<lparr>Material := Some ''D400'', Standard_Price := Some 30\<rparr>]"

text \<open>Lower case for the letters A to Z, as \<^verbatim>\<open>toLowerCase\<close> acts on ASCII text.\<close>

definition toLowerCase_ascii :: "string \<Rightarrow> string" where
  "toLowerCase_ascii s =
     map (\<lambda>c. if CHR ''A'' \<le> c \<and> c \<le> CHR ''Z'' then char_of (of_char c + 32 :: nat) else c) s"

definition example_db :: database where
  "example_db = \<lparr>online = True,
     material_summary_2025 =
       [(''BOLT-1'', empty_part\<lparr>SPRAS_EN := Some ''Hex bolt M8''\<rparr>),
        (''NUT-7'', empty_part\<lparr>SPRAS_EN := Some ''Lock nut''\<rparr>),
        (''W-22'', empty_part\<lparr>SPRAS_EN := Some ''Washer'', Supplier_Name := Some ''Boltco''\<rparr>),
        (''X-9'', empty_part\<lparr>SPRAS_EN := Some ''Anchor Bolt''\<rparr>)],
     Parts = [], PartApplications = []\<rparr>"

definition alice_form :: FormData where
  "alice_form = initial_form\<lparr>requestedBy := ''Alice'', department := ''Eng'', specifications := ''bolt''\<rparr>"

definition example_time :: string where
  "example_time = ''2025-01-01T00:00:00.000Z''"

definition complete_form :: FormData where
  "complete_form = alice_form\<lparr>quantity := ''2''\<rparr>"

definition after_one :: page_state where
  "after_one =
     (handleSubmit example_time (initial_state\<lparr>formData := complete_form\<rparr>))
       \<lparr>formData := complete_form\<lparr>requestedBy := ''Bob''\<rparr>\<rparr>"

definition after_two :: page_state where
  "after_two = handleSubmit ''2025-01-02T09:30:00.000Z'' after_one"

definition empty_db :: database where
  "empty_db = \<lparr>online = True, material_summary_2025 = [], Parts = [], PartApplications = []\<rparr>"

definition example_request :: PartApplication where
  "example_request =
     \<lparr>ticket_id = [], supplier_name = ''Acme'', part_description = ''Hex bolt M8'',
      part_number = ''APP-1'', requested_by = ''Alice'', PartApplication.department = ''Eng'',
      urgency = medium, technical_specs = ''bolt'', application_notes = [],
      estimated_cost = 0, justification = [], image_url = None, PartApplication.status = pending,
      created_at = 0\<rparr>"

definition first_key :: string where "first_key = ''-OaA0001''"
definition second_key :: string where "second_key = ''-OaB0002''"

definition skewed_db :: database where
  "skewed_db =
     empty_db\<lparr>PartApplications :=
       [(first_key, example_request\<lparr>ticket_id := first_key, created_at := 2000\<rparr>),
        (second_key, example_request\<lparr>ticket_id := second_key, created_at := 1000\<rparr>)]\<rparr>"

definition old_part :: Part where
  "old_part = empty_part\<lparr>SPRAS_EN := Some ''Hex bolt M8'', Standard_Price := Some 12,
                notes' := Some ''old''\<rparr>"

definition admin_db :: database where
  "admin_db = empty_db\<lparr>Parts := [(''A100'', old_part)]\<rparr>"

definition year_only :: PartUpdates where
  "year_only = \<lparr>upd_notes = Absent, upd_year = Value ''2024'', upd_obsoleted_date = Absent,
                 upd_alternative_parts = Absent\<rparr>"

definition example_env :: pdf_env where
  "example_env =
     \<lparr>pageWidth = 210, pageHeight = 297,
      splitTextToSize = (\<lambda>text width. [text]),
      formatDate = (\<lambda>t. ''Jan 1, 2025, 12:00 AM''),
      formatCurrency = (\<lambda>amount. ''$0.00''),
      today = ''1/1/2025'', today_zh = ''2025/1/1'',
      load = (\<lambda>url. LoadFailed),
      toDataURL = (\<lambda>url w h. ''data:image/jpeg;base64,'')\<rparr>"


text \<open>Three parts whose prices fall as their codes rise; two of the codes are numerals.\<close>

definition numeric_parts :: "(string \<times> Part) list" where
  "numeric_parts =
     [(''9'', empty_part\<lparr>Standard_Price := Some 3\<rparr>),
      (''10'', empty_part\<lparr>Standard_Price := Some 2\<rparr>),
      (''A1'', empty_part\<lparr>Standard_Price := Some 1\<rparr>)]"


text \<open>\<^verbatim>\<open>trim\<close> as it acts on text whose only white space is the space character.\<close>

definition trim_spaces :: "string \<Rightarrow> string" where
  "trim_spaces s =
     rev (dropWhile (\<lambda>c. c = CHR '' '') (rev (dropWhile (\<lambda>c. c = CHR '' '') s)))"

text \<open>
  The admin page with the part \<open>A100\<close> loaded, then the same page after the part is
  selected and \<open>2024\<close> is typed into the year input.
\<close>

definition admin_start :: admin_state where
  "admin_start =
     \<lparr>parts = [(''A100'', old_part)], selectedPart = None, notes_input = [],
      year_input = [], obsoletedDate = [], alternativeParts = [], admin_message = None,
      isSaving = False\<rparr>"

definition year_form :: admin_state where
  "year_form = (handlePartSelect ''A100'' old_part admin_start)\<lparr>year_input := ''2024''\<rparr>"

chapter \<open>Properties\<close>

section \<open>The catalogue filter\<close>

lemma catalogue_filtered_all: "catalogue_filtered M ''all'' False = M"
  by (simp add: catalogue_filtered_def matchesSupplier_def matchesStock_def)

lemma stock_positive_iff:
  "num_or0 (Current_Stock_Qty p) > 0 \<longleftrightarrow> (\<exists>q. Current_Stock_Qty p = Some q \<and> 0 < q)"
  by (cases "Current_Stock_Qty p") (simp_all add: num_or0_def)

text \<open>
  Claim C1. An entry of the mapping passes the catalogue filter exactly when (the supplier
  filter is \<open>all\<close> or equals the record's supplier) and (the stock-only flag is off or the
  record has a stock quantity greater than 0); the result keeps the passing entries in
  their order. With supplier \<open>all\<close> and the flag off the result is the mapping itself; the
  result with the flag on is the part of the result with the flag off whose stock quantity
  is positive, hence a subset of it.
\<close>

theorem catalogue_filter_spec:
  "catalogue_filtered M s b =
     filter (\<lambda>(k, p). (s = ''all'' \<or> Supplier_Name p = Some s) \<and>
                      (\<not> b \<or> (\<exists>q. Current_Stock_Qty p = Some q \<and> 0 < q))) M
   \<and> catalogue_filtered M ''all'' False = M
   \<and> catalogue_filtered M s True =
       filter (\<lambda>(k, p). \<exists>q. Current_Stock_Qty p = Some q \<and> 0 < q) (catalogue_filtered M s False)
   \<and> set (catalogue_filtered M s True) \<subseteq> set (catalogue_filtered M s False)
   \<and> (\<forall>(k, p) \<in> set (catalogue_filtered M s True). \<exists>q. Current_Stock_Qty p = Some q \<and> 0 < q)"
proof -
  have pass: "catalogue_filtered M s b =
     filter (\<lambda>(k, p). (s = ''all'' \<or> Supplier_Name p = Some s) \<and>
                      (\<not> b \<or> (\<exists>q. Current_Stock_Qty p = Some q \<and> 0 < q))) M" for b
    by (simp add: catalogue_filtered_def matchesSupplier_def matchesStock_def
        stock_positive_iff)
  have on: "catalogue_filtered M s True =
       filter (\<lambda>(k, p). \<exists>q. Current_Stock_Qty p = Some q \<and> 0 < q) (catalogue_filtered M s False)"
    unfolding pass by (simp add: case_prod_unfold conj_commute)
  have sub: "set (catalogue_filtered M s True) \<subseteq> set (catalogue_filtered M s False)"
    unfolding on by auto
  have pos: "\<forall>(k, p) \<in> set (catalogue_filtered M s True). \<exists>q. Current_Stock_Qty p = Some q \<and> 0 < q"
    unfolding on by auto
  show ?thesis
    using pass [of b] catalogue_filtered_all on sub pos by blast
qed

theorem catalogue_filter_spec_witness:
  "catalogue_filtered example_parts ''all'' False = example_parts
   \<and> catalogue_filtered example_parts ''Acme'' True = [example_parts ! 0]
   \<and> catalogue_filtered example_parts ''Acme'' False = [example_parts ! 0, example_parts ! 2]
   \<and> set (catalogue_filtered example_parts ''Acme'' True)
        \<subseteq> set (catalogue_filtered example_parts ''Acme'' False)"
  using catalogue_filter_spec [of example_parts "''Acme''" True]
  by (simp add: example_parts_def empty_part_def catalogue_filtered_def matchesSupplier_def
      matchesStock_def num_or0_def)

section \<open>Sorting\<close>

lemma insort_cmp_key:
  fixes f :: "'a \<Rightarrow> 'k::linorder"
  assumes "\<And>a b. cmp a b \<le> 0 \<longleftrightarrow> f a \<le> f b"
  shows "insort_cmp cmp x ys = insort_key f x ys"
  by (induction ys) (simp_all add: assms)

lemma js_sort_key:
  fixes f :: "'a \<Rightarrow> 'k::linorder"
  assumes "\<And>a b. cmp a b \<le> 0 \<longleftrightarrow> f a \<le> f b"
  shows "js_sort cmp xs = sort_key f xs"
proof -
  have "insort_cmp cmp = insort_key f"
    by (intro ext) (rule insort_cmp_key [OF assms])
  then show ?thesis
    by (simp add: js_sort_def sort_key_def)
qed

lemma js_sort_by_key:
  fixes f :: "'a \<Rightarrow> 'k::linorder"
  assumes le: "\<And>a b. cmp a b \<le> 0 \<longleftrightarrow> f a \<le> f b"
    and eq: "\<And>a b. cmp a b = 0 \<longleftrightarrow> f a = f b"
  shows "mset (js_sort cmp xs) = mset xs"
    and "sorted_wrt (\<lambda>a b. cmp a b \<le> 0) (js_sort cmp xs)"
    and "filter (\<lambda>y. cmp x y = 0) (js_sort cmp xs) = filter (\<lambda>y. cmp x y = 0) xs"
proof -
  have s: "js_sort cmp xs = sort_key f xs"
    by (rule js_sort_key [OF le])
  show "mset (js_sort cmp xs) = mset xs"
    by (simp add: s)
  have "sorted (map f (sort_key f xs))"
    by simp
  then show "sorted_wrt (\<lambda>a b. cmp a b \<le> 0) (js_sort cmp xs)"
    by (simp add: s le sorted_map)
  have "filter (\<lambda>y. f y = f x) (sort_key f xs) = filter (\<lambda>y. f y = f x) xs"
    by (rule sort_key_stable)
  moreover have "(\<lambda>y. cmp x y = 0) = (\<lambda>y. f y = f x)"
    by (auto simp: eq)
  ultimately show "filter (\<lambda>y. cmp x y = 0) (js_sort cmp xs) = filter (\<lambda>y. cmp x y = 0) xs"
    by (simp add: s)
qed

lemma js_sort_unique:
  fixes f :: "'a \<Rightarrow> 'k::linorder"
  assumes le: "\<And>a b. cmp a b \<le> 0 \<longleftrightarrow> f a \<le> f b"
    and perm: "mset ys = mset xs"
    and ordered: "sorted_wrt (\<lambda>a b. cmp a b \<le> 0) ys"
    and stable: "\<And>k. filter (\<lambda>y. f y = k) ys = filter (\<lambda>y. f y = k) xs"
  shows "ys = js_sort cmp xs"
proof -
  have "sorted (map f ys)"
    using ordered by (simp add: sorted_map le)
  moreover have "filter (\<lambda>x. f k = f x) ys = filter (\<lambda>x. f k = f x) xs" for k
    using stable [of "f k"] by (simp add: eq_commute)
  ultimately have "sort_key f xs = ys"
    using perm by (intro properties_for_sort_key) simp_all
  then show ?thesis
    by (simp add: js_sort_key [OF le])
qed

lemma localeCompare_le: "localeCompare collate a b \<le> 0 \<longleftrightarrow> collate a \<le> collate b"
  by (auto simp: localeCompare_def)

lemma localeCompare_eq: "localeCompare collate a b = 0 \<longleftrightarrow> collate a = collate b"
  by (auto simp: localeCompare_def)

lemma sort_key_uminus_rev:
  fixes f :: "'a \<Rightarrow> real"
  assumes "distinct (map f xs)"
  shows "sort_key (\<lambda>x. - f x) xs = rev (sort_key f xs)"
proof -
  let ?g = "\<lambda>x. - f x"
  have inj: "inj_on f (set xs)" and dxs: "distinct xs"
    using assms by (simp_all add: distinct_map)
  have injg: "inj_on ?g (set (sort_key ?g xs) \<union> set (rev (sort_key f xs)))"
    using inj by (auto simp: inj_on_def)
  have d1: "distinct (map ?g (sort_key ?g xs))"
    using inj dxs by (auto simp: distinct_map inj_on_def)
  have d2: "distinct (map ?g (rev (sort_key f xs)))"
    using inj dxs by (auto simp: distinct_map inj_on_def)
  have s1: "sorted (map ?g (sort_key ?g xs))"
    by simp
  have "sorted (map f (sort_key f xs))"
    by simp
  then have "sorted_wrt (\<lambda>a b. f a \<le> f b) (sort_key f xs)"
    by (simp add: sorted_map)
  then have "sorted_wrt (\<lambda>a b. ?g a \<le> ?g b) (rev (sort_key f xs))"
    by (simp add: sorted_wrt_rev)
  then have s2: "sorted (map ?g (rev (sort_key f xs)))"
    by (simp only: sorted_map)
  show ?thesis
    by (rule map_sorted_distinct_set_unique [OF injg s1 d1 s2 d2]) simp
qed

lemma catalogue_sorted_props:
  fixes collate :: "string \<Rightarrow> 'k::linorder"
  shows "mset (catalogue_sorted collate sortBy xs) = mset xs"
    and "sorted_wrt (\<lambda>a b. catalogue_compare collate sortBy a b \<le> 0)
           (catalogue_sorted collate sortBy xs)"
    and "filter (\<lambda>y. catalogue_compare collate sortBy x y = 0) (catalogue_sorted collate sortBy xs)
         = filter (\<lambda>y. catalogue_compare collate sortBy x y = 0) xs"
proof -
  let ?cmp = "catalogue_compare collate sortBy"
  consider (price) "sortBy = ''price''" | (stock) "sortBy \<noteq> ''price''" "sortBy = ''stock''"
    | (supplier) "sortBy \<noteq> ''price''" "sortBy \<noteq> ''stock''" "sortBy = ''supplier''"
    | (code) "sortBy \<noteq> ''price''" "sortBy \<noteq> ''stock''" "sortBy \<noteq> ''supplier''"
    by blast
  then have "mset (js_sort ?cmp xs) = mset xs
     \<and> sorted_wrt (\<lambda>a b. ?cmp a b \<le> 0) (js_sort ?cmp xs)
     \<and> filter (\<lambda>y. ?cmp x y = 0) (js_sort ?cmp xs) = filter (\<lambda>y. ?cmp x y = 0) xs"
  proof cases
    case price
    let ?f = "\<lambda>(m, p). num_or0 (Standard_Price p)"
    have le: "?cmp a b \<le> 0 \<longleftrightarrow> ?f a \<le> ?f b" for a b
      by (cases a; cases b) (simp add: catalogue_compare_def price)
    have eq: "?cmp a b = 0 \<longleftrightarrow> ?f a = ?f b" for a b
      by (cases a; cases b) (simp add: catalogue_compare_def price)
    show ?thesis
      using js_sort_by_key [of ?cmp ?f, OF le eq] by blast
  next
    case stock
    let ?f = "\<lambda>(m, p). - num_or0 (Current_Stock_Qty p)"
    have le: "?cmp a b \<le> 0 \<longleftrightarrow> ?f a \<le> ?f b" for a b
      by (cases a; cases b) (simp add: catalogue_compare_def stock)
    have eq: "?cmp a b = 0 \<longleftrightarrow> ?f a = ?f b" for a b
      by (cases a; cases b) (auto simp add: catalogue_compare_def stock)
    show ?thesis
      using js_sort_by_key [of ?cmp ?f, OF le eq] by blast
  next
    case supplier
    let ?f = "\<lambda>(m, p). collate (str_or_empty (Supplier_Name p))"
    have le: "?cmp a b \<le> 0 \<longleftrightarrow> ?f a \<le> ?f b" for a b
      by (cases a; cases b) (simp add: catalogue_compare_def supplier localeCompare_le)
    have eq: "?cmp a b = 0 \<longleftrightarrow> ?f a = ?f b" for a b
      by (cases a; cases b) (simp add: catalogue_compare_def supplier localeCompare_eq)
    show ?thesis
      using js_sort_by_key [of ?cmp ?f, OF le eq] by blast
  next
    case code
    let ?f = "\<lambda>(m, p). collate m"
    have le: "?cmp a b \<le> 0 \<longleftrightarrow> ?f a \<le> ?f b" for a b
      by (cases a; cases b) (simp add: catalogue_compare_def code localeCompare_le)
    have eq: "?cmp a b = 0 \<longleftrightarrow> ?f a = ?f b" for a b
      by (cases a; cases b) (simp add: catalogue_compare_def code localeCompare_eq)
    show ?thesis
      using js_sort_by_key [of ?cmp ?f, OF le eq] by blast
  qed
  then show "mset (catalogue_sorted collate sortBy xs) = mset xs"
    and "sorted_wrt (\<lambda>a b. catalogue_compare collate sortBy a b \<le> 0)
           (catalogue_sorted collate sortBy xs)"
    and "filter (\<lambda>y. catalogue_compare collate sortBy x y = 0) (catalogue_sorted collate sortBy xs)
         = filter (\<lambda>y. catalogue_compare collate sortBy x y = 0) xs"
    by (simp_all add: catalogue_sorted_def)
qed

lemma catalogue_price_ties:
  "filter (\<lambda>(m, p). num_or0 (Standard_Price p) = v) (catalogue_sorted collate ''price'' xs)
   = filter (\<lambda>(m, p). num_or0 (Standard_Price p) = v) xs"
proof -
  let ?f = "\<lambda>(m, p). num_or0 (Standard_Price p)"
  have le: "catalogue_compare collate ''price'' a b \<le> 0 \<longleftrightarrow> ?f a \<le> ?f b" for a b
    by (cases a; cases b) (simp add: catalogue_compare_def)
  have s: "catalogue_sorted collate ''price'' xs = sort_key ?f xs"
    unfolding catalogue_sorted_def by (rule js_sort_key [OF le])
  have "filter (\<lambda>y. ?f y = v) (sort_key ?f xs) = filter (\<lambda>y. ?f y = v) xs"
    by (rule sort_key_stable)
  then show ?thesis
    by (simp add: s case_prod_unfold)
qed

lemma catalogue_pipeline:
  "mset (catalogue_filteredAndSortedParts collate M s sortBy b) = mset (catalogue_filtered M s b)"
  by (simp add: catalogue_filteredAndSortedParts_def catalogue_sorted_props)

lemma summary_price_key:
  "summary_compare collate numeric F_Standard_Price asc a b
     = num_or0 (Standard_Price a) - num_or0 (Standard_Price b)"
  "summary_compare collate numeric F_Standard_Price desc a b
     = num_or0 (Standard_Price b) - num_or0 (Standard_Price a)"
  by (cases "Standard_Price a"; cases "Standard_Price b";
      simp add: summary_compare_def val_or0_def of_num_def Number_or0_def num_or0_def)+

lemma summary_price_sorted:
  "summary_sorted collate numeric F_Standard_Price asc ps
     = sort_key (\<lambda>p. num_or0 (Standard_Price p)) ps"
  "summary_sorted collate numeric F_Standard_Price desc ps
     = sort_key (\<lambda>p. - num_or0 (Standard_Price p)) ps"
  unfolding summary_sorted_def
  by (rule js_sort_key, simp add: summary_price_key)+

lemma summary_price_reverse:
  assumes "distinct (map (\<lambda>p. num_or0 (Standard_Price p)) ps)"
  shows "summary_sorted collate numeric F_Standard_Price desc ps
         = rev (summary_sorted collate numeric F_Standard_Price asc ps)"
  unfolding summary_price_sorted by (rule sort_key_uminus_rev [OF assms])

lemma summary_price_ties:
  "filter (\<lambda>p. num_or0 (Standard_Price p) = v)
      (summary_sorted collate numeric F_Standard_Price d ps)
   = filter (\<lambda>p. num_or0 (Standard_Price p) = v) ps"
proof (cases d)
  case asc
  then show ?thesis
    by (simp only: summary_price_sorted sort_key_stable)
next
  case desc
  have "filter (\<lambda>p. - num_or0 (Standard_Price p) = - v)
          (sort_key (\<lambda>p. - num_or0 (Standard_Price p)) ps)
        = filter (\<lambda>p. - num_or0 (Standard_Price p) = - v) ps"
    by (rule sort_key_stable)
  then show ?thesis
    using desc by (simp add: summary_price_sorted)
qed

text \<open>
  Claim C2. For every list of entries and every sort key of the catalogue page (\<open>price\<close>,
  \<open>stock\<close>, \<open>supplier\<close>, and the part code for any other value), the sort yields a
  permutation of the list that is ordered by the comparator and stable: the entries that
  compare equal to any given entry stand in their original order. In particular entries with
  equal prices keep their relative order under the price sort of either page, and on
  the summary page, for rows with pairwise distinct prices, the descending price sort is
  the exact reverse of the ascending one. A missing price or stock counts as 0.
\<close>

theorem sort_stable_spec:
  fixes collate :: "string \<Rightarrow> 'k::linorder"
  shows
    "mset (catalogue_sorted collate sortBy xs) = mset xs
     \<and> sorted_wrt (\<lambda>a b. catalogue_compare collate sortBy a b \<le> 0)
          (catalogue_sorted collate sortBy xs)
     \<and> (\<forall>x. filter (\<lambda>y. catalogue_compare collate sortBy x y = 0)
                (catalogue_sorted collate sortBy xs)
              = filter (\<lambda>y. catalogue_compare collate sortBy x y = 0) xs)
     \<and> (\<forall>v. filter (\<lambda>(m, p). num_or0 (Standard_Price p) = v)
                (catalogue_sorted collate ''price'' xs)
              = filter (\<lambda>(m, p). num_or0 (Standard_Price p) = v) xs)
     \<and> (\<forall>v d. filter (\<lambda>p. num_or0 (Standard_Price p) = v)
                  (summary_sorted collate numeric F_Standard_Price d ps)
                = filter (\<lambda>p. num_or0 (Standard_Price p) = v) ps)
     \<and> (distinct (map (\<lambda>p. num_or0 (Standard_Price p)) ps) \<longrightarrow>
          summary_sorted collate numeric F_Standard_Price desc ps
          = rev (summary_sorted collate numeric F_Standard_Price asc ps))"
proof (intro conjI allI impI)
  show "mset (catalogue_sorted collate sortBy xs) = mset xs"
    by (rule catalogue_sorted_props)
  show "sorted_wrt (\<lambda>a b. catalogue_compare collate sortBy a b \<le> 0)
          (catalogue_sorted collate sortBy xs)"
    by (rule catalogue_sorted_props)
  show "filter (\<lambda>y. catalogue_compare collate sortBy x y = 0) (catalogue_sorted collate sortBy xs)
        = filter (\<lambda>y. catalogue_compare collate sortBy x y = 0) xs" for x
    by (rule catalogue_sorted_props)
  show "filter (\<lambda>(m, p). num_or0 (Standard_Price p) = v) (catalogue_sorted collate ''price'' xs)
        = filter (\<lambda>(m, p). num_or0 (Standard_Price p) = v) xs" for v
    by (rule catalogue_price_ties)
  show "filter (\<lambda>p. num_or0 (Standard_Price p) = v)
          (summary_sorted collate numeric F_Standard_Price d ps)
        = filter (\<lambda>p. num_or0 (Standard_Price p) = v) ps" for v d
    by (rule summary_price_ties)
  show "summary_sorted collate numeric F_Standard_Price desc ps
        = rev (summary_sorted collate numeric F_Standard_Price asc ps)"
    if "distinct (map (\<lambda>p. num_or0 (Standard_Price p)) ps)"
    using that by (rule summary_price_reverse)
qed

theorem sort_stable_spec_witness:
  "catalogue_sorted (\<lambda>s. s) ''price'' example_parts
     = [example_parts ! 3, example_parts ! 1, example_parts ! 0, example_parts ! 2]
   \<and> filter (\<lambda>(m, p). num_or0 (Standard_Price p) = 12)
        (catalogue_sorted (\<lambda>s. s) ''price'' example_parts)
     = [example_parts ! 0, example_parts ! 2]
   \<and> distinct (map (\<lambda>p. num_or0 (Standard_Price p)) example_rows)
   \<and> summary_sorted (\<lambda>s. s) (\<lambda>s. None) F_Standard_Price desc example_rows
     = rev (summary_sorted (\<lambda>s. s) (\<lambda>s. None) F_Standard_Price asc example_rows)
   \<and> summary_sorted (\<lambda>s. s) (\<lambda>s. None) F_Standard_Price asc example_rows
     = [example_rows ! 2, example_rows ! 1, example_rows ! 0, example_rows ! 3]"
  using sort_stable_spec [where collate = "\<lambda>s. s" and sortBy = "''price''"
      and xs = example_parts and numeric = "\<lambda>s. None" and ps = example_rows]
  by (simp add: example_parts_def example_rows_def empty_part_def catalogue_sorted_def
      summary_sorted_def js_sort_def catalogue_compare_def summary_compare_def val_or0_def
      of_num_def Number_or0_def num_or0_def)

section \<open>Pagination\<close>

lemma concat_chunks:
  "concat (map (\<lambda>i. take n (drop (i * n) xs)) [0..<m]) = take (m * n) xs"
proof (induction m)
  case 0
  show ?case by simp
next
  case (Suc m)
  have "concat (map (\<lambda>i. take n (drop (i * n) xs)) [0..<Suc m])
        = concat (map (\<lambda>i. take n (drop (i * n) xs)) [0..<m]) @ take n (drop (m * n) xs)"
    by simp
  also have "\<dots> = take (m * n) xs @ take n (drop (m * n) xs)"
    by (simp only: Suc.IH)
  also have "\<dots> = take (m * n + n) xs"
    by (simp only: take_add)
  also have "m * n + n = Suc m * n"
    by simp
  finally show ?case .
qed

lemma js_slice_nonneg:
  "js_slice xs (int s) (int s + int n) = take n (drop s xs)"
proof (cases "s \<le> length xs")
  case True
  then have "nat (min (int s + int n) (int (length xs)) - int s) = min n (length xs - s)"
    by linarith
  moreover have "take (min n (length xs - s)) (drop s xs) = take n (drop s xs)"
    by (simp add: min_def)
  ultimately show ?thesis
    using True by (simp add: js_slice_def Let_def min_absorb1)
next
  case False
  then show ?thesis
    by (simp add: js_slice_def Let_def min_def)
qed

lemma page_start:
  assumes "1 \<le> page"
  shows "(page - 1) * itemsPerPage = int (nat (page - 1) * 50)"
  using assms by (simp add: itemsPerPage_def)

lemma paginatedParts_take_drop:
  assumes "1 \<le> page"
  shows "paginatedParts xs page = take 50 (drop (nat (page - 1) * 50) xs)"
proof -
  have "paginatedParts xs page
        = js_slice xs (int (nat (page - 1) * 50)) (int (nat (page - 1) * 50) + int 50)"
    unfolding paginatedParts_def Let_def page_start [OF assms] by (simp add: itemsPerPage_def)
  then show ?thesis
    by (simp only: js_slice_nonneg)
qed

lemma totalPages_bounds:
  shows "int (length xs) \<le> totalPages xs * 50"
    and "(totalPages xs - 1) * 50 < int (length xs)"
    and "0 \<le> totalPages xs"
proof -
  let ?L = "length xs" and ?T = "totalPages xs"
  have T: "?T = \<lceil>real ?L / 50\<rceil>"
    by (simp add: totalPages_def itemsPerPage_def)
  have c: "real_of_int ?T - 1 < real ?L / 50 \<and> real ?L / 50 \<le> real_of_int ?T"
    unfolding T by (rule ceiling_correct)
  then have "real ?L \<le> real_of_int ?T * 50"
    by (simp add: field_simps)
  then have "real_of_int (int ?L) \<le> real_of_int (?T * 50)"
    by simp
  then show "int ?L \<le> ?T * 50"
    by (simp only: of_int_le_iff)
  from c have "(real_of_int ?T - 1) * 50 < real ?L"
    by (simp add: field_simps)
  then have "real_of_int ((?T - 1) * 50) < real_of_int (int ?L)"
    by simp
  then show "(?T - 1) * 50 < int ?L"
    by (simp only: of_int_less_iff)
  have "0 \<le> real ?L / 50"
    by simp
  then show "0 \<le> ?T"
    unfolding T by (simp only: zero_le_ceiling)
qed

lemma nat_page_start:
  assumes "1 \<le> page"
  shows "int (nat (page - 1) * 50) = (page - 1) * 50"
  using assms by simp

lemma pages_concat:
  "concat (map (\<lambda>i. paginatedParts xs (int i)) [1..<Suc (nat (totalPages xs))]) = xs"
proof -
  let ?m = "nat (totalPages xs)"
  have "[1..<Suc ?m] = map Suc [0..<?m]"
    by (simp only: map_Suc_upt One_nat_def)
  then have "map (\<lambda>i. paginatedParts xs (int i)) [1..<Suc ?m]
        = map (\<lambda>i. paginatedParts xs (int (Suc i))) [0..<?m]"
    by (simp only: map_map comp_def)
  also have "\<dots> = map (\<lambda>i. take 50 (drop (i * 50) xs)) [0..<?m]"
    by (simp add: paginatedParts_take_drop)
  finally have "concat (map (\<lambda>i. paginatedParts xs (int i)) [1..<Suc ?m]) = take (?m * 50) xs"
    by (simp only: concat_chunks)
  moreover have "length xs \<le> ?m * 50"
  proof -
    have "int (length xs) \<le> int (?m * 50)"
      using totalPages_bounds(1) [of xs] totalPages_bounds(3) [of xs] by simp
    then show ?thesis
      by (simp only: of_nat_le_iff)
  qed
  ultimately show ?thesis
    by simp
qed

lemma full_pages:
  assumes "1 \<le> page" "page < totalPages xs"
  shows "length (paginatedParts xs page) = 50"
proof -
  have "page * 50 \<le> int (length xs)"
    using assms(2) totalPages_bounds(2) [of xs] unfolding left_diff_distrib by linarith
  then have "int (nat (page - 1) * 50 + 50) \<le> int (length xs)"
    using assms(1) by simp
  then have "nat (page - 1) * 50 + 50 \<le> length xs"
    by (simp only: of_nat_le_iff)
  then show ?thesis
    by (simp add: paginatedParts_take_drop [OF assms(1)])
qed

lemma last_page:
  assumes "xs \<noteq> []"
  shows "1 \<le> length (paginatedParts xs (totalPages xs))"
    and "length (paginatedParts xs (totalPages xs)) \<le> 50"
proof -
  have "0 < int (length xs)"
    using assms by simp
  then have t: "1 \<le> totalPages xs"
    using totalPages_bounds(1) [of xs] by linarith
  have "int (nat (totalPages xs - 1) * 50) < int (length xs)"
    using totalPages_bounds(2) [of xs] by (simp only: nat_page_start [OF t])
  then have "nat (totalPages xs - 1) * 50 < length xs"
    by (simp only: of_nat_less_iff)
  then show "1 \<le> length (paginatedParts xs (totalPages xs))"
    by (simp add: paginatedParts_take_drop [OF t])
  show "length (paginatedParts xs (totalPages xs)) \<le> 50"
    by (simp add: paginatedParts_take_drop [OF t])
qed

lemma beyond_last_page:
  assumes "totalPages xs < page"
  shows "paginatedParts xs page = []"
proof -
  have p: "1 \<le> page"
    using assms totalPages_bounds(3) [of xs] by linarith
  have "int (length xs) \<le> (page - 1) * 50"
    using assms totalPages_bounds(1) [of xs] unfolding left_diff_distrib by linarith
  then have "int (length xs) \<le> int (nat (page - 1) * 50)"
    by (simp only: nat_page_start [OF p])
  then have "length xs \<le> nat (page - 1) * 50"
    by (simp only: of_nat_le_iff)
  then show ?thesis
    by (simp add: paginatedParts_take_drop [OF p])
qed

text \<open>
  The slice \<^verbatim>\<open>paginatedParts\<close>, which is the page the summary page renders. With page size
  50 and pages numbered from 1: the page count is \<open>\<lceil>N / 50\<rceil>\<close>; the slices 1 to
  \<open>\<lceil>N / 50\<rceil>\<close> concatenated are the sequence; every slice before the last has 50 entries
  and the last has between 1 and 50; a page number beyond the last gives the empty slice;
  the empty sequence has zero pages and every slice of it is empty.
\<close>

lemma paginatedParts_pages:
  "totalPages xs = \<lceil>real (length xs) / 50\<rceil>
   \<and> concat (map (\<lambda>i. paginatedParts xs (int i)) [1..<Suc (nat (totalPages xs))]) = xs
   \<and> (\<forall>page. 1 \<le> page \<and> page < totalPages xs \<longrightarrow> length (paginatedParts xs page) = 50)
   \<and> (xs \<noteq> [] \<longrightarrow> 1 \<le> length (paginatedParts xs (totalPages xs))
                  \<and> length (paginatedParts xs (totalPages xs)) \<le> 50)
   \<and> (\<forall>page. totalPages xs < page \<longrightarrow> paginatedParts xs page = [])
   \<and> totalPages ([] :: 'a list) = 0
   \<and> paginatedParts ([] :: 'a list) page' = []"
proof -
  have "totalPages xs = \<lceil>real (length xs) / 50\<rceil>"
    by (simp add: totalPages_def itemsPerPage_def)
  moreover have "totalPages ([] :: 'a list) = 0"
    by (simp add: totalPages_def)
  moreover have "paginatedParts ([] :: 'a list) page' = []"
    by (simp add: paginatedParts_def js_slice_def Let_def)
  ultimately show ?thesis
    using pages_concat [of xs] full_pages [of _ xs] last_page [of xs] beyond_last_page [of xs]
    by blast
qed

lemma paginatedParts_pages_example:
  "totalPages [0..<120] = 3
   \<and> paginatedParts [0..<120] 1 = [0..<50]
   \<and> paginatedParts [0..<120] 3 = [100..<120]
   \<and> paginatedParts [0..<120] 4 = []
   \<and> concat (map (\<lambda>i. paginatedParts [0..<120] (int i)) [1..<4]) = [0..<120]"
proof -
  have t: "totalPages [0..<120] = 3"
    by (simp add: totalPages_def itemsPerPage_def)
  have "concat (map (\<lambda>i. paginatedParts [0..<120] (int i)) [1..<Suc (nat (totalPages [0..<120]))])
        = [0..<120]"
    using paginatedParts_pages [of "[0..<120]"] by blast
  then have c: "concat (map (\<lambda>i. paginatedParts [0..<120] (int i)) [1..<4]) = [0..<120]"
    by (simp only: t) (simp only: nat_numeral Suc_numeral semiring_norm)
  have p1: "paginatedParts [0..<120] 1 = [0..<50]"
    by (simp add: paginatedParts_take_drop take_upt)
  have p3: "paginatedParts [0..<120] 3 = [100..<120]"
    by (simp add: paginatedParts_take_drop)
  have "paginatedParts [0..<120] 4 = []"
    by (simp add: paginatedParts_take_drop)
  with t c p1 p3 show ?thesis
    by blast
qed

text \<open>
  The catalogue page turns the slice into an object and renders the object's entries.
  When the codes are pairwise distinct the page shows the entries of the slice, each once,
  in the enumeration order of the object.
\<close>

lemma obj_set_fresh: "k \<notin> fst ` set obj \<Longrightarrow> obj_set obj k v = obj @ [(k, v)]"
  by (simp add: obj_set_def)

lemma fold_obj_set_distinct:
  assumes "distinct (map fst (acc @ xs))"
  shows "fold (\<lambda>(k, v) obj. obj_set obj k v) xs acc = acc @ xs"
  using assms
proof (induction xs arbitrary: acc)
  case Nil
  show ?case by simp
next
  case (Cons x xs)
  obtain k v where x: "x = (k, v)"
    by (cases x)
  have "k \<notin> fst ` set acc"
    using Cons.prems x by auto
  then have "obj_set acc k v = acc @ [(k, v)]"
    by (rule obj_set_fresh)
  moreover have "distinct (map fst ((acc @ [x]) @ xs))"
    using Cons.prems by simp
  ultimately show ?case
    using Cons.IH [of "acc @ [x]"] x by simp
qed

lemma mset_own_property_order: "mset (own_property_order xs) = mset xs"
  by (simp add: own_property_order_def case_prod_unfold)

lemma displayedParts_entries:
  assumes "distinct (map fst xs)"
  shows "mset (displayedParts xs page) = mset (paginatedParts xs page)"
proof -
  have "distinct (map fst (paginatedParts xs page))"
    using assms
    by (simp add: paginatedParts_def js_slice_def Let_def distinct_map distinct_take
        distinct_drop inj_on_def) (meson in_set_dropD in_set_takeD)
  then have "fold (\<lambda>(k, v) obj. obj_set obj k v) (paginatedParts xs page) []
             = paginatedParts xs page"
    using fold_obj_set_distinct [of "[]" "paginatedParts xs page"] by simp
  then show ?thesis
    by (simp add: displayedParts_def Object_fromEntries_def mset_own_property_order)
qed

text \<open>
  Claim C3 fails on the code of the catalogue page. The parts with the codes \<open>9\<close>, \<open>10\<close>
  and \<open>A1\<close> and the prices 3, 2 and 1 are sorted by price: the sequence is \<open>A1\<close>, \<open>10\<close>,
  \<open>9\<close>, there is one page, and its slice is that sequence. The page that is displayed is
  \<open>9\<close>, \<open>10\<close>, \<open>A1\<close>: the object built from the slice enumerates the codes that are
  array indices first, in ascending numeric order. The pages concatenated are not the
  sequence.
\<close>

theorem catalogue_page_reorders:
  "catalogue_filteredAndSortedParts (\<lambda>s. s) numeric_parts ''all'' ''price'' False
     = [numeric_parts ! 2, numeric_parts ! 1, numeric_parts ! 0]
   \<and> map fst (catalogue_filteredAndSortedParts (\<lambda>s. s) numeric_parts ''all'' ''price'' False)
     = [''A1'', ''10'', ''9'']
   \<and> totalPages (catalogue_filteredAndSortedParts (\<lambda>s. s) numeric_parts ''all'' ''price'' False)
     = 1
   \<and> paginatedParts
       (catalogue_filteredAndSortedParts (\<lambda>s. s) numeric_parts ''all'' ''price'' False) 1
     = [numeric_parts ! 2, numeric_parts ! 1, numeric_parts ! 0]
   \<and> displayedParts
       (catalogue_filteredAndSortedParts (\<lambda>s. s) numeric_parts ''all'' ''price'' False) 1
     = [numeric_parts ! 0, numeric_parts ! 1, numeric_parts ! 2]
   \<and> map fst (displayedParts
       (catalogue_filteredAndSortedParts (\<lambda>s. s) numeric_parts ''all'' ''price'' False) 1)
     = [''9'', ''10'', ''A1'']
   \<and> concat (map (\<lambda>i. displayedParts
         (catalogue_filteredAndSortedParts (\<lambda>s. s) numeric_parts ''all'' ''price'' False) (int i))
       [1..<2])
     \<noteq> catalogue_filteredAndSortedParts (\<lambda>s. s) numeric_parts ''all'' ''price'' False"
  by code_simp

section \<open>Server-side search\<close>

lemma search_loop:
  assumes "distinct (map fst (acc @ xs))"
  shows "fold (search_step lc q limit) xs (acc, int (length acc))
         = (let r = acc @ take (nat (limit - int (length acc))) (filter (search_matches lc q) xs)
            in (r, int (length r)))"
  using assms
proof (induction xs arbitrary: acc)
  case Nil
  show ?case by (simp add: Let_def)
next
  case (Cons x xs)
  show ?case
  proof (cases "int (length acc) \<ge> limit")
    case True
    then have "search_step lc q limit x (acc, int (length acc)) = (acc, int (length acc))"
      by (simp add: search_step_def)
    moreover have "distinct (map fst (acc @ xs))"
      using Cons.prems by simp
    ultimately show ?thesis
      using Cons.IH [of acc] True by (simp add: Let_def)
  next
    case False
    show ?thesis
    proof (cases "search_matches lc q x")
      case True
      have fresh: "fst x \<notin> fst ` set acc"
        using Cons.prems by auto
      have step: "search_step lc q limit x (acc, int (length acc))
                  = (acc @ [x], int (length (acc @ [x])))"
        using False True fresh by (simp add: search_step_def obj_set_fresh)
      have d: "distinct (map fst ((acc @ [x]) @ xs))"
        using Cons.prems by simp
      have n: "nat (limit - int (length acc)) = Suc (nat (limit - int (length (acc @ [x]))))"
        using False by simp
      show ?thesis
        using Cons.IH [OF d] True
        by (simp only: fold_simps step n filter.simps if_True take_Suc_Cons Let_def append_assoc
            append_Cons append_Nil)
    next
      case nomatch: False
      then have "search_step lc q limit x (acc, int (length acc)) = (acc, int (length acc))"
        by (simp add: search_step_def)
      moreover have "distinct (map fst (acc @ xs))"
        using Cons.prems by simp
      ultimately show ?thesis
        using Cons.IH [of acc] nomatch by (simp add: Let_def)
    qed
  qed
qed

lemma searchParts_nonempty:
  assumes "searchTerm \<noteq> []" "online db" "distinct (map fst (material_summary_2025 db))"
  shows "searchParts lc db searchTerm limit
         = take (nat limit) (filter (search_matches lc (lc searchTerm)) (material_summary_2025 db))"
proof -
  have "fold (search_step lc (lc searchTerm) limit) (material_summary_2025 db) ([], int (length ([] :: (string \<times> Part) list)))
        = (let r = [] @ take (nat (limit - int (length ([] :: (string \<times> Part) list))))
                     (filter (search_matches lc (lc searchTerm)) (material_summary_2025 db))
           in (r, int (length r)))"
    by (rule search_loop) (simp add: assms(3))
  then show ?thesis
    using assms(1,2) by (simp add: searchParts_def getAllParts_def get_def Let_def)
qed

lemma searchParts_empty:
  assumes "online db"
  shows "searchParts lc db [] limit = take (nat limit) (material_summary_2025 db)"
  using assms by (simp add: searchParts_def get_limitToFirst_def get_def)

lemma searchParts_offline: "\<not> online db \<Longrightarrow> searchParts lc db searchTerm limit = []"
  by (simp add: searchParts_def get_limitToFirst_def get_def getAllParts_def Let_def)

lemma take_drops_some:
  assumes "distinct ys" "n < length ys"
  shows "ys ! n \<in> set ys" and "ys ! n \<notin> set (take n ys)"
proof -
  show "ys ! n \<in> set ys"
    using assms(2) by simp
  have "ys ! n \<in> set (drop n ys)"
    using assms(2) by (metis Cons_nth_drop_Suc list.set_intros(1))
  moreover have "set (take n ys) \<inter> set (drop n ys) = {}"
    using assms(1) by (rule set_take_disj_set_drop_if_distinct) simp
  ultimately show "ys ! n \<notin> set (take n ys)"
    by blast
qed

lemma searchParts_length:
  assumes "distinct (map fst (material_summary_2025 db))"
  shows "length (searchParts lc db searchTerm limit) \<le> nat limit"
proof (cases "online db")
  case True
  then show ?thesis
    using assms
    by (cases "searchTerm = []") (simp_all add: searchParts_empty searchParts_nonempty)
next
  case False
  then show ?thesis
    by (simp add: searchParts_offline)
qed

lemma searchParts_default:
  assumes "distinct (map fst (material_summary_2025 db))"
  shows "length (searchParts lc db searchTerm default_limit) \<le> 50"
  using searchParts_length [OF assms, of lc searchTerm default_limit]
  by (simp add: default_limit_def)

text \<open>
  Claim C10. For a non-empty search term the search returns the first \<open>limit\<close> matching
  records in enumeration order and no more, so that a further record that matches is
  dropped; for the empty term it returns the first \<open>limit\<close> records of the store. The
  result never has more than \<open>limit\<close> records (50 when the caller gives none).
\<close>

theorem searchParts_truncates:
  assumes d: "distinct (map fst (material_summary_2025 db))"
  shows
    "(online db \<and> searchTerm \<noteq> [] \<longrightarrow>
        searchParts lc db searchTerm limit
        = take (nat limit) (filter (search_matches lc (lc searchTerm)) (material_summary_2025 db)))
     \<and> (online db \<longrightarrow> searchParts lc db [] limit = take (nat limit) (material_summary_2025 db))
     \<and> length (searchParts lc db searchTerm limit) \<le> nat limit
     \<and> (online db \<and> searchTerm \<noteq> []
          \<and> nat limit < length (filter (search_matches lc (lc searchTerm)) (material_summary_2025 db))
        \<longrightarrow> (\<exists>e \<in> set (material_summary_2025 db).
               search_matches lc (lc searchTerm) e \<and> e \<notin> set (searchParts lc db searchTerm limit)))
     \<and> (online db \<and> nat limit < length (material_summary_2025 db)
        \<longrightarrow> (\<exists>e \<in> set (material_summary_2025 db). e \<notin> set (searchParts lc db [] limit)))"
proof (intro conjI impI)
  let ?all = "material_summary_2025 db"
  let ?hits = "filter (search_matches lc (lc searchTerm)) ?all"
  have dall: "distinct ?all"
    using d by (rule distinct_map [THEN iffD1, THEN conjunct1])
  have dhits: "distinct ?hits"
    using dall by simp
  show "searchParts lc db searchTerm limit = take (nat limit) ?hits"
    if "online db \<and> searchTerm \<noteq> []"
    using that d by (simp add: searchParts_nonempty)
  show "searchParts lc db [] limit = take (nat limit) ?all" if "online db"
    using that by (rule searchParts_empty)
  show "length (searchParts lc db searchTerm limit) \<le> nat limit"
    using d by (rule searchParts_length)
  show "\<exists>e \<in> set ?all. search_matches lc (lc searchTerm) e
           \<and> e \<notin> set (searchParts lc db searchTerm limit)"
    if h: "online db \<and> searchTerm \<noteq> [] \<and> nat limit < length ?hits"
  proof -
    have "?hits ! nat limit \<in> set ?hits" and "?hits ! nat limit \<notin> set (take (nat limit) ?hits)"
      using take_drops_some [OF dhits] h by blast+
    then show ?thesis
      using h d by (auto simp: searchParts_nonempty)
  qed
  show "\<exists>e \<in> set ?all. e \<notin> set (searchParts lc db [] limit)"
    if h: "online db \<and> nat limit < length ?all"
  proof -
    have "?all ! nat limit \<in> set ?all" and "?all ! nat limit \<notin> set (take (nat limit) ?all)"
      using take_drops_some [OF dall] h by blast+
    then show ?thesis
      using h by (auto simp: searchParts_empty)
  qed
qed

theorem searchParts_truncates_witness:
  "distinct (map fst (material_summary_2025 example_db))
   \<and> online example_db
   \<and> searchParts toLowerCase_ascii example_db ''Bolt'' 2
       = [material_summary_2025 example_db ! 0, material_summary_2025 example_db ! 2]
   \<and> search_matches toLowerCase_ascii (toLowerCase_ascii ''Bolt'') (material_summary_2025 example_db ! 3)
   \<and> material_summary_2025 example_db ! 3 \<notin> set (searchParts toLowerCase_ascii example_db ''Bolt'' 2)
   \<and> length (searchParts toLowerCase_ascii example_db ''Bolt'' 2) \<le> nat 2
   \<and> searchParts toLowerCase_ascii example_db [] 2 = take 2 (material_summary_2025 example_db)"
proof -
  have d: "distinct (map fst (material_summary_2025 example_db))"
    by code_simp
  have on: "online example_db"
    by code_simp
  have r: "searchParts toLowerCase_ascii example_db ''Bolt'' 2
       = [material_summary_2025 example_db ! 0, material_summary_2025 example_db ! 2]"
    by code_simp
  have m: "search_matches toLowerCase_ascii (toLowerCase_ascii ''Bolt'')
             (material_summary_2025 example_db ! 3)"
    by code_simp
  have n: "material_summary_2025 example_db ! 3
             \<notin> set (searchParts toLowerCase_ascii example_db ''Bolt'' 2)"
    by code_simp
  have l: "length (searchParts toLowerCase_ascii example_db ''Bolt'' 2) \<le> nat 2"
    and e: "searchParts toLowerCase_ascii example_db [] 2 = take (nat 2) (material_summary_2025 example_db)"
    using searchParts_truncates [OF d, of "''Bolt''" toLowerCase_ascii 2] on by blast+
  from d on r m n l e show ?thesis
    by simp
qed

section \<open>Ticket submission\<close>

lemma handleSubmit_rejected:
  assumes "\<not> accepted (formData st)"
  shows "handleSubmit now st = st\<lparr>message := Some (error, ''Please fill in all required fields'')\<rparr>"
  using assms by (auto simp: handleSubmit_def accepted_def showMessage_def Let_def)

lemma handleSubmit_accepted:
  assumes "accepted (formData st)"
  shows "handleSubmit now st =
           st\<lparr>applications := applications st @
                  [FormData.extend (formData st)
                     (Application.fields (generateTicketId (applications st)) now pending)],
               message := Some (success, ''Part application '' @ generateTicketId (applications st)
                                           @ '' submitted successfully!''),
               formData := initial_form, isSubmitting := False\<rparr>"
  using assms by (simp add: handleSubmit_def accepted_def showMessage_def resetForm_def Let_def)






lemma toString_nonempty: "toString n \<noteq> []"
  by (subst toString.simps) simp








text \<open>
  Claim C4, as stated, fails: a form with requester \<open>Alice\<close>, department \<open>Eng\<close> and
  specifications \<open>bolt\<close> whose other fields are empty is rejected, since the quantity is
  empty, and the message does not name the missing field.
\<close>

theorem ticket_validation_counterexample:
  "requestedBy alice_form = ''Alice'' \<and> department alice_form = ''Eng''
   \<and> specifications alice_form = ''bolt''
   \<and> applications (handleSubmit example_time (initial_state\<lparr>formData := alice_form\<rparr>)) = []
   \<and> message (handleSubmit example_time (initial_state\<lparr>formData := alice_form\<rparr>))
       = Some (error, ''Please fill in all required fields'')"
  by (simp add: handleSubmit_def alice_form_def initial_form_def initial_state_def
      showMessage_def)

text \<open>
  Claim C4, amended. A submission is accepted exactly when requester, department, quantity
  and specifications are all non-empty: then the new application is appended to the list.
  Otherwise the page shows the one message \<open>Please fill in all required fields\<close> and the
  list of applications and the form are unchanged.
\<close>

theorem ticket_validation:
  "(requestedBy (formData st) \<noteq> [] \<and> department (formData st) \<noteq> []
      \<and> quantity (formData st) \<noteq> [] \<and> specifications (formData st) \<noteq> [] \<longrightarrow>
      applications (handleSubmit now st)
        = applications st @
            [FormData.extend (formData st)
               (Application.fields (generateTicketId (applications st)) now pending)]
      \<and> message (handleSubmit now st)
        = Some (success, ''Part application '' @ generateTicketId (applications st)
                           @ '' submitted successfully!''))
   \<and> (requestedBy (formData st) = [] \<or> department (formData st) = []
      \<or> quantity (formData st) = [] \<or> specifications (formData st) = [] \<longrightarrow>
      applications (handleSubmit now st) = applications st
      \<and> formData (handleSubmit now st) = formData st
      \<and> message (handleSubmit now st) = Some (error, ''Please fill in all required fields''))"
proof (intro conjI impI)
  assume a: "requestedBy (formData st) \<noteq> [] \<and> department (formData st) \<noteq> []
      \<and> quantity (formData st) \<noteq> [] \<and> specifications (formData st) \<noteq> []"
  then have acc: "accepted (formData st)"
    by (simp add: accepted_def)
  show "applications (handleSubmit now st)
        = applications st @
            [FormData.extend (formData st)
               (Application.fields (generateTicketId (applications st)) now pending)]"
    by (simp add: handleSubmit_accepted [OF acc])
  show "message (handleSubmit now st)
        = Some (success, ''Part application '' @ generateTicketId (applications st)
                           @ '' submitted successfully!'')"
    by (simp add: handleSubmit_accepted [OF acc])
next
  assume "requestedBy (formData st) = [] \<or> department (formData st) = []
      \<or> quantity (formData st) = [] \<or> specifications (formData st) = []"
  then have rej: "\<not> accepted (formData st)"
    by (auto simp: accepted_def)
  show "applications (handleSubmit now st) = applications st"
    and "formData (handleSubmit now st) = formData st"
    and "message (handleSubmit now st) = Some (error, ''Please fill in all required fields'')"
    by (simp_all add: handleSubmit_rejected [OF rej])
qed

theorem ticket_validation_witness:
  "requestedBy complete_form \<noteq> [] \<and> department complete_form \<noteq> []
   \<and> quantity complete_form \<noteq> [] \<and> specifications complete_form \<noteq> []
   \<and> map ticketId (applications (handleSubmit example_time (initial_state\<lparr>formData := complete_form\<rparr>)))
       = [''Part01'']
   \<and> message (handleSubmit example_time (initial_state\<lparr>formData := complete_form\<rparr>))
       = Some (success, ''Part application Part01 submitted successfully!'')
   \<and> requestedBy initial_form = []
   \<and> applications (handleSubmit example_time initial_state) = applications initial_state
   \<and> message (handleSubmit example_time initial_state)
       = Some (error, ''Please fill in all required fields'')"
proof -
  have id1: "generateTicketId [] = ''Part01''"
    by code_simp
  have f: "formData (initial_state\<lparr>formData := complete_form\<rparr>) = complete_form"
    "applications (initial_state\<lparr>formData := complete_form\<rparr>) = []"
    "formData initial_state = initial_form" "applications initial_state = []"
    by (simp_all add: initial_state_def)
  have c: "requestedBy complete_form \<noteq> [] \<and> department complete_form \<noteq> []
      \<and> quantity complete_form \<noteq> [] \<and> specifications complete_form \<noteq> []"
    by (simp add: complete_form_def alice_form_def initial_form_def)
  have e: "requestedBy initial_form = []"
    by (simp add: initial_form_def)
  show ?thesis
    using ticket_validation [of "initial_state\<lparr>formData := complete_form\<rparr>" example_time]
      ticket_validation [of initial_state example_time] c e
    by (simp add: f id1 FormData.extend_def Application.fields_def)
qed


lemma page_ticket_ids_example:
  "reachable after_one
   \<and> map ticketId (applications after_one) = [''Part01'']
   \<and> map ticketId (applications after_two) = [''Part01'', ''Part02'']
   \<and> map status (applications after_two) = [pending, pending]
   \<and> map submittedAt (applications after_two) = [example_time, ''2025-01-02T09:30:00.000Z'']"
proof -
  have r: "reachable after_one"
    unfolding after_one_def
    by (intro reachable.submit reachable.edit reachable.start)
  have id1: "map ticketId (applications after_one) = [''Part01'']"
    by code_simp
  have ids: "map ticketId (applications after_two) = [''Part01'', ''Part02'']"
    by code_simp
  have st: "map status (applications after_two) = [pending, pending]"
    by code_simp
  have ts: "map submittedAt (applications after_two) = [example_time, ''2025-01-02T09:30:00.000Z'']"
    by code_simp
  from r id1 ids st ts show ?thesis
    by blast
qed




lemma submitPartApplication_fails:
  assumes "\<not> online db \<or> imageUrl = Undefined"
  shows "\<exists>e. submitPartApplication db key now a imageUrl = Inl e"
  using assms by (auto simp: submitPartApplication_def Let_def)





section \<open>Reading the applications\<close>

lemma getAllPartApplications_all:
  "getAllPartApplications db = (if online db then rev (map snd (PartApplications db)) else [])"
  by (simp add: getAllPartApplications_def get_orderByChild_def get_def val_def Let_def)

lemma forEach_order_by_time:
  assumes "get_orderByChild db PartApplications created_at = Inr snapshot"
  shows "sorted (map (\<lambda>c. created_at (snd c)) (forEach_order snapshot))"
    and "mset (forEach_order snapshot) = mset (PartApplications db)"
  using assms
  by (auto simp: get_orderByChild_def get_def forEach_order_def split: if_splits
      simp del: sorted_sort_key intro: sorted_sort_key [where f = "\<lambda>c. created_at (snd c)", simplified])

text \<open>
  Claim C6 fails on the code. Two applications are submitted, the first from a browser
  whose clock is ahead: its key is the smaller one and its \<^verbatim>\<open>created_at\<close> the larger one.
  \<^verbatim>\<open>getAllPartApplications\<close> then returns the ticket created last (by \<^verbatim>\<open>created_at\<close>) in
  second place: the result follows the keys, not the creation timestamps.
\<close>

theorem getAllPartApplications_oldest_first:
  "(case submitPartApplication empty_db first_key 2000 example_request Absent of
      Inl e \<Rightarrow> False
    | Inr (k1, db1) \<Rightarrow> submitPartApplication db1 second_key 1000 example_request Absent
                        = Inr (second_key, skewed_db))
   \<and> map created_at (getAllPartApplications skewed_db) = [1000, 2000]
   \<and> map ticket_id (getAllPartApplications skewed_db) = [second_key, first_key]"
  by code_simp

section \<open>Merge update\<close>

lemma map_of_insort_key_fst:
  assumes "k \<notin> fst ` set xs"
  shows "map_of (insort_key fst (k, v) xs) k' = (if k' = k then Some v else map_of xs k')"
  using assms by (induction xs) auto

lemma map_of_filter_key:
  "map_of (filter (\<lambda>c. fst c \<noteq> k) xs) k' = (if k' = k then None else map_of xs k')"
  by (induction xs) auto

lemma map_of_node_set:
  "map_of (node_set children k v) k' = (if k' = k then Some v else map_of children k')"
proof -
  have "k \<notin> fst ` set (filter (\<lambda>c. fst c \<noteq> k) children)"
    by auto
  then show ?thesis
    unfolding node_set_def by (simp add: map_of_insort_key_fst map_of_filter_key)
qed

lemma stored_spread:
  "upd \<noteq> Undefined \<Longrightarrow> stored (spread_prop current upd) = merged_prop current upd"
  "upd \<noteq> Undefined \<Longrightarrow> spread_prop current upd \<noteq> Undefined"
  by (cases upd; cases current; simp add: stored_def spread_prop_def merged_prop_def)+

lemma updatePartData_defined:
  assumes "online db" "map_of (Parts db) material = Some p" "defined_updates u"
  shows "updatePartData db material u
         = Inr (db\<lparr>Parts := set_part (Parts db) material (merged_part p u)\<rparr>)"
  using assms
  by (simp add: updatePartData_def get_def Let_def defined_updates_def stored_spread
      merged_part_def)

lemma merged_part_nonempty:
  assumes "p \<noteq> empty_part" "defined_updates u"
  shows "merged_part p u \<noteq> empty_part"
proof
  assume e: "merged_part p u = empty_part"
  have m: "merged_prop c x = None \<Longrightarrow> x \<noteq> Undefined \<Longrightarrow> c = None" for c x
    by (cases x) (simp_all add: merged_prop_def)
  from e have "notes' (merged_part p u) = None" "year (merged_part p u) = None"
    "obsoleted_date (merged_part p u) = None" "alternative_parts (merged_part p u) = None"
    by (simp_all add: empty_part_def)
  then have "notes' p = None" "year p = None" "obsoleted_date p = None"
    "alternative_parts p = None"
    using assms(2) by (auto simp: merged_part_def defined_updates_def dest: m)
  then have "merged_part p u = p"
    using \<open>notes' (merged_part p u) = None\<close> \<open>year (merged_part p u) = None\<close>
      \<open>obsoleted_date (merged_part p u) = None\<close> \<open>alternative_parts (merged_part p u) = None\<close>
    by (simp add: merged_part_def)
  with e assms(1) show False
    by simp
qed

text \<open>
  The service function. For a part record that exists in the store and an update payload
  in which every property is either left out or a string, \<^verbatim>\<open>updatePartData\<close> succeeds;
  afterwards the record has the payload's value in each property the payload carries and
  its former value in every other property, and every other record and node is unchanged.
\<close>

lemma updatePartData_merges:
  assumes "online db" and "map_of (Parts db) material = Some p" and "p \<noteq> empty_part"
    and "upd_notes u \<noteq> Undefined" and "upd_year u \<noteq> Undefined"
    and "upd_obsoleted_date u \<noteq> Undefined" and "upd_alternative_parts u \<noteq> Undefined"
  shows "\<exists>db'. updatePartData db material u = Inr db'
     \<and> map_of (Parts db') material =
         Some (p\<lparr>notes' := (case upd_notes u of Value v \<Rightarrow> Some v | _ \<Rightarrow> notes' p),
                 year := (case upd_year u of Value v \<Rightarrow> Some v | _ \<Rightarrow> year p),
                 obsoleted_date :=
                   (case upd_obsoleted_date u of Value v \<Rightarrow> Some v | _ \<Rightarrow> obsoleted_date p),
                 alternative_parts :=
                   (case upd_alternative_parts u of Value v \<Rightarrow> Some v
                    | _ \<Rightarrow> alternative_parts p)\<rparr>)
     \<and> (\<forall>m. m \<noteq> material \<longrightarrow> map_of (Parts db') m = map_of (Parts db) m)
     \<and> material_summary_2025 db' = material_summary_2025 db
     \<and> PartApplications db' = PartApplications db"
proof -
  have du: "defined_updates u"
    using assms(4-7) by (simp add: defined_updates_def)
  let ?db' = "db\<lparr>Parts := set_part (Parts db) material (merged_part p u)\<rparr>"
  have r: "updatePartData db material u = Inr ?db'"
    using assms(1,2) du by (rule updatePartData_defined)
  have ne: "merged_part p u \<noteq> empty_part"
    using assms(3) du by (rule merged_part_nonempty)
  have lk: "map_of (Parts ?db') m = (if m = material then Some (merged_part p u)
                                      else map_of (Parts db) m)" for m
    using ne by (simp add: set_part_def map_of_node_set)
  have mp: "merged_prop c x = (case x of Value v \<Rightarrow> Some v | _ \<Rightarrow> c)" if "x \<noteq> Undefined" for c x
    using that by (cases x) (simp_all add: merged_prop_def)
  have mg: "merged_part p u =
         p\<lparr>notes' := (case upd_notes u of Value v \<Rightarrow> Some v | _ \<Rightarrow> notes' p),
           year := (case upd_year u of Value v \<Rightarrow> Some v | _ \<Rightarrow> year p),
           obsoleted_date :=
             (case upd_obsoleted_date u of Value v \<Rightarrow> Some v | _ \<Rightarrow> obsoleted_date p),
           alternative_parts :=
             (case upd_alternative_parts u of Value v \<Rightarrow> Some v | _ \<Rightarrow> alternative_parts p)\<rparr>"
    unfolding merged_part_def
    by (simp only: mp [OF assms(4)] mp [OF assms(5)] mp [OF assms(6)] mp [OF assms(7)])
  show ?thesis
    using r lk mg by (intro exI [of _ ?db']) simp
qed

lemma updatePartData_merges_example:
  "online admin_db \<and> map_of (Parts admin_db) ''A100'' = Some old_part \<and> old_part \<noteq> empty_part
   \<and> upd_notes year_only \<noteq> Undefined \<and> upd_year year_only \<noteq> Undefined
   \<and> upd_obsoleted_date year_only \<noteq> Undefined \<and> upd_alternative_parts year_only \<noteq> Undefined
   \<and> (\<exists>db'. updatePartData admin_db ''A100'' year_only = Inr db'
         \<and> map_of (Parts db') ''A100'' = Some (old_part\<lparr>year := Some ''2024''\<rparr>)
         \<and> map_option notes' (map_of (Parts db') ''A100'') = Some (Some ''old'')
         \<and> map_option year (map_of (Parts db') ''A100'') = Some (Some ''2024''))"
proof -
  have h: "online admin_db" "map_of (Parts admin_db) ''A100'' = Some old_part"
    "old_part \<noteq> empty_part"
    "upd_notes year_only \<noteq> Undefined" "upd_year year_only \<noteq> Undefined"
    "upd_obsoleted_date year_only \<noteq> Undefined" "upd_alternative_parts year_only \<noteq> Undefined"
    by (simp_all add: admin_db_def empty_db_def old_part_def empty_part_def year_only_def)
  obtain db' where d: "updatePartData admin_db ''A100'' year_only = Inr db'"
    and p: "map_of (Parts db') ''A100'' =
         Some (old_part\<lparr>notes' := (case upd_notes year_only of Value v \<Rightarrow> Some v | _ \<Rightarrow> notes' old_part),
                 year := (case upd_year year_only of Value v \<Rightarrow> Some v | _ \<Rightarrow> year old_part),
                 obsoleted_date :=
                   (case upd_obsoleted_date year_only of Value v \<Rightarrow> Some v
                    | _ \<Rightarrow> obsoleted_date old_part),
                 alternative_parts :=
                   (case upd_alternative_parts year_only of Value v \<Rightarrow> Some v
                    | _ \<Rightarrow> alternative_parts old_part)\<rparr>)"
    using updatePartData_merges [OF h] by blast
  have "map_of (Parts db') ''A100'' = Some (old_part\<lparr>year := Some ''2024''\<rparr>)"
    unfolding p by (simp add: year_only_def old_part_def empty_part_def)
  moreover from this have "map_option notes' (map_of (Parts db') ''A100'') = Some (Some ''old'')"
    and "map_option year (map_of (Parts db') ''A100'') = Some (Some ''2024'')"
    by (simp_all add: old_part_def)
  ultimately show ?thesis
    using h d by blast
qed


text \<open>
  The admin page sends all four properties every time, a blank input as \<^verbatim>\<open>undefined\<close>: with
  a blank input the save fails and nothing is stored; with four filled inputs it stores
  the four trimmed values and keeps the other fields.
\<close>

lemma or_undefined_blank: "or_undefined [] = Undefined"
  by (simp add: or_undefined_def)

lemma updatePartData_undefined:
  assumes "upd_notes u = Undefined \<or> upd_year u = Undefined
           \<or> upd_obsoleted_date u = Undefined \<or> upd_alternative_parts u = Undefined"
  shows "\<exists>e. updatePartData db material u = Inl e"
proof (cases "online db")
  case True
  have "spread_prop c Undefined = Undefined" for c
    by (simp add: spread_prop_def)
  then show ?thesis
    using assms True by (auto simp: updatePartData_def get_def Let_def)
next
  case False
  then show ?thesis
    by (simp add: updatePartData_def get_def)
qed

lemma handleSavePartData_blank_fails:
  assumes "selectedPart st = Some (material, part)"
    and "trim (notes_input st) = [] \<or> trim (year_input st) = []
         \<or> trim (obsoletedDate st) = [] \<or> trim (alternativeParts st) = []"
  shows "handleSavePartData trim (db, st)
         = (db, st\<lparr>admin_message := Some (error, ''Failed to update part data''),
                   isSaving := False\<rparr>)"
proof -
  let ?u = "\<lparr>upd_notes = or_undefined (trim (notes_input st)),
             upd_year = or_undefined (trim (year_input st)),
             upd_obsoleted_date = or_undefined (trim (obsoletedDate st)),
             upd_alternative_parts = or_undefined (trim (alternativeParts st))\<rparr>"
  have "upd_notes ?u = Undefined \<or> upd_year ?u = Undefined
        \<or> upd_obsoleted_date ?u = Undefined \<or> upd_alternative_parts ?u = Undefined"
    using assms(2) by (auto simp: or_undefined_blank)
  then obtain e where "updatePartData db material ?u = Inl e"
    using updatePartData_undefined by blast
  then show ?thesis
    using assms(1) by (simp add: handleSavePartData_def Let_def)
qed

lemma handleSavePartData_saves:
  assumes "selectedPart st = Some (material, part)" and "online db"
    and "map_of (Parts db) material = Some p"
    and "trim (notes_input st) \<noteq> []" and "trim (year_input st) \<noteq> []"
    and "trim (obsoletedDate st) \<noteq> []" and "trim (alternativeParts st) \<noteq> []"
  shows "fst (handleSavePartData trim (db, st))
         = db\<lparr>Parts := set_part (Parts db) material
                  (p\<lparr>notes' := Some (trim (notes_input st)),
                     year := Some (trim (year_input st)),
                     obsoleted_date := Some (trim (obsoletedDate st)),
                     alternative_parts := Some (trim (alternativeParts st))\<rparr>)\<rparr>"
proof -
  let ?u = "\<lparr>upd_notes = or_undefined (trim (notes_input st)),
             upd_year = or_undefined (trim (year_input st)),
             upd_obsoleted_date = or_undefined (trim (obsoletedDate st)),
             upd_alternative_parts = or_undefined (trim (alternativeParts st))\<rparr>"
  have du: "defined_updates ?u"
    using assms(4-7) by (simp add: defined_updates_def or_undefined_def)
  have "updatePartData db material ?u
        = Inr (db\<lparr>Parts := set_part (Parts db) material (merged_part p ?u)\<rparr>)"
    using assms(2,3) du by (rule updatePartData_defined)
  moreover have "merged_part p ?u
        = p\<lparr>notes' := Some (trim (notes_input st)), year := Some (trim (year_input st)),
             obsoleted_date := Some (trim (obsoletedDate st)),
             alternative_parts := Some (trim (alternativeParts st))\<rparr>"
    using assms(4-7) by (simp add: merged_part_def merged_prop_def or_undefined_def)
  ultimately show ?thesis
    using assms(1) by (simp add: handleSavePartData_def Let_def)
qed

text \<open>
  Claim C7 fails on the code of the admin page, the caller of \<^verbatim>\<open>updatePartData\<close>. The
  store holds the part \<open>A100\<close> with the note \<open>old\<close> and no year. The part is selected, so
  that the notes input shows \<open>old\<close> and the three other inputs are blank, and \<open>2024\<close> is
  typed into the year input. Saving sends the two blank inputs as properties with the
  value \<^verbatim>\<open>undefined\<close>: the write is refused, the page shows \<open>Failed to update part data\<close>,
  and the stored part still has no year.
\<close>

theorem admin_year_only_fails:
  "map_of (Parts admin_db) ''A100'' = Some old_part
   \<and> notes' old_part = Some ''old'' \<and> year old_part = None
   \<and> notes_input year_form = ''old'' \<and> year_input year_form = ''2024''
   \<and> obsoletedDate year_form = [] \<and> alternativeParts year_form = []
   \<and> handleSavePartData trim_spaces (admin_db, year_form)
       = (admin_db,
          year_form\<lparr>admin_message := Some (error, ''Failed to update part data'')\<rparr>)
   \<and> map_option year
         (map_of (Parts (fst (handleSavePartData trim_spaces (admin_db, year_form)))) ''A100'')
       = Some None
   \<and> map_option year
         (map_of (parts (snd (handleSavePartData trim_spaces (admin_db, year_form)))) ''A100'')
       = Some None"
  by code_simp

section \<open>PDF export\<close>

lemma font_after_append: "font_after f (xs @ ys) = font_after (font_after f xs) ys"
  by (induction f xs rule: font_after.induct) simp_all

lemma drawn_append: "drawn f (xs @ ys) = drawn f xs @ drawn (font_after f xs) ys"
  by (induction f xs rule: drawn.induct) simp_all

lemma page_break_drawn:
  "drawn f (fst (page_break env room y)) = []"
  "font_after f (fst (page_break env room y)) = f"
  by (simp_all add: page_break_def)

lemma header_drawn:
  "drawn f (fst (header_block env l a y)) =
     [(bold, [title l]),
      (normal, [ticketLabel l @ '' '' @ ticket_id a]),
      (normal, [dateLabel l @ '' '' @ formatDate env (created_at a)]),
      (normal, [statusLabel l @ '' '' @ status_upper (PartApplication.status a)]),
      (normal, [urgencyLabel l @ '' '' @ urgency_upper (urgency a)])]"
  "font_after f (fst (header_block env l a y)) = normal"
  by (simp_all add: header_block_def)

lemma part_info_drawn:
  "drawn f (fst (part_info_block env l a y)) =
     [(bold, [partInfoTitle l]),
      (bold, [partNumberLabel l]),
      (normal, splitTextToSize env (part_number a) (contentWidth env - 40)),
      (bold, [supplierLabel l]),
      (normal, splitTextToSize env (supplier_name a) (contentWidth env - 40)),
      (bold, [descriptionLabel l]),
      (normal, splitTextToSize env (part_description a) (contentWidth env - 40))]"
  "font_after f (fst (part_info_block env l a y)) = normal"
  by (simp_all add: part_info_block_def Let_def case_prod_beta)

lemma request_info_drawn:
  "drawn f (fst (request_info_block env l a y)) =
     [(bold, [requestInfoTitle l]),
      (bold, [requestedByLabel l]), (normal, [requested_by a]),
      (bold, [departmentLabel l]), (normal, [PartApplication.department a]),
      (bold, [estimatedCostLabel l]), (normal, [formatCurrency env (estimated_cost a)])]"
  "font_after f (fst (request_info_block env l a y)) = normal"
  by (simp_all add: request_info_block_def Let_def case_prod_beta)

lemma tech_specs_drawn:
  "drawn f (fst (tech_specs_block env l a y)) =
     (if technical_specs a = [] then []
      else [(bold, [techSpecsTitle l]),
            (normal, splitTextToSize env (technical_specs a) (contentWidth env))])"
  "font_after f (fst (tech_specs_block env l a y)) =
     (if technical_specs a = [] then f else normal)"
  by (simp_all add: tech_specs_block_def Let_def)

lemma justification_drawn:
  "drawn f (fst (justification_block env l a y)) =
     (if justification a = [] then []
      else [(bold, [justificationTitle l]),
            (normal, splitTextToSize env (justification a) (contentWidth env))])"
  "font_after f (fst (justification_block env l a y)) =
     (if justification a = [] then f else normal)"
  by (simp_all add: justification_block_def Let_def case_prod_beta drawn_append
      font_after_append page_break_drawn)

lemma notes_drawn:
  "drawn f (fst (notes_block env l a y)) =
     (if application_notes a = [] then []
      else [(bold, [notesTitle l]),
            (normal, splitTextToSize env (application_notes a) (contentWidth env))])"
  "font_after f (fst (notes_block env l a y)) =
     (if application_notes a = [] then f else normal)"
  by (simp_all add: notes_block_def Let_def case_prod_beta drawn_append
      font_after_append page_break_drawn)

lemma image_drawn:
  "drawn f (fst (image_block env l a y)) =
     (if has_image a then [(bold, [imageTitle l])] else [])"
  by (simp add: image_block_def has_image_def Let_def case_prod_beta drawn_append
      font_after_append page_break_drawn split: option.splits image_load.splits)

lemma footer_drawn:
  "drawn f (footer_block env l a) = [(normal, [footerText env l])]"
  by (simp add: footer_block_def)

lemma document_drawn:
  "drawn normal (generateApplicationPDF env l a) =
     [(bold, [title l]),
      (normal, [ticketLabel l @ '' '' @ ticket_id a]),
      (normal, [dateLabel l @ '' '' @ formatDate env (created_at a)]),
      (normal, [statusLabel l @ '' '' @ status_upper (PartApplication.status a)]),
      (normal, [urgencyLabel l @ '' '' @ urgency_upper (urgency a)]),
      (bold, [partInfoTitle l]),
      (bold, [partNumberLabel l]),
      (normal, splitTextToSize env (part_number a) (contentWidth env - 40)),
      (bold, [supplierLabel l]),
      (normal, splitTextToSize env (supplier_name a) (contentWidth env - 40)),
      (bold, [descriptionLabel l]),
      (normal, splitTextToSize env (part_description a) (contentWidth env - 40)),
      (bold, [requestInfoTitle l]),
      (bold, [requestedByLabel l]), (normal, [requested_by a]),
      (bold, [departmentLabel l]), (normal, [PartApplication.department a]),
      (bold, [estimatedCostLabel l]), (normal, [formatCurrency env (estimated_cost a)])]
     @ (if technical_specs a = [] then []
        else [(bold, [techSpecsTitle l]),
              (normal, splitTextToSize env (technical_specs a) (contentWidth env))])
     @ (if justification a = [] then []
        else [(bold, [justificationTitle l]),
              (normal, splitTextToSize env (justification a) (contentWidth env))])
     @ (if application_notes a = [] then []
        else [(bold, [notesTitle l]),
              (normal, splitTextToSize env (application_notes a) (contentWidth env))])
     @ (if has_image a then [(bold, [imageTitle l])] else [])
     @ [(normal, [footerText env l])]"
  unfolding generateApplicationPDF_def Let_def case_prod_beta
  by (simp only: drawn_append font_after_append header_drawn part_info_drawn
      request_info_drawn tech_specs_drawn justification_drawn notes_drawn image_drawn
      footer_drawn append_Cons append_Nil append_assoc)

lemmas label_defs =
  title_def ticketLabel_def dateLabel_def statusLabel_def urgencyLabel_def partInfoTitle_def
  partNumberLabel_def supplierLabel_def descriptionLabel_def requestInfoTitle_def
  requestedByLabel_def departmentLabel_def estimatedCostLabel_def techSpecsTitle_def
  justificationTitle_def notesTitle_def imageTitle_def

text \<open>
  Claim C8. The heading of the technical-specification block is drawn exactly when the
  ticket's technical specifications are not empty, and likewise for the justification and
  the notes. An empty field's block makes no call at all and leaves the vertical position
  as it is; the document draws the 20 texts of the fixed blocks, two for each optional
  text block that is present, and one for the heading of the image block.
\<close>

theorem optional_blocks_omitted:
  "((bold, [techSpecsTitle l]) \<in> set (drawn normal (generateApplicationPDF env l a))
      \<longleftrightarrow> technical_specs a \<noteq> [])
   \<and> ((bold, [justificationTitle l]) \<in> set (drawn normal (generateApplicationPDF env l a))
      \<longleftrightarrow> justification a \<noteq> [])
   \<and> ((bold, [notesTitle l]) \<in> set (drawn normal (generateApplicationPDF env l a))
      \<longleftrightarrow> application_notes a \<noteq> [])
   \<and> length (drawn normal (generateApplicationPDF env l a))
       = 20 + (if technical_specs a = [] then 0 else 2)
            + (if justification a = [] then 0 else 2)
            + (if application_notes a = [] then 0 else 2)
            + (if has_image a then 1 else 0)
   \<and> (technical_specs a = [] \<longrightarrow> tech_specs_block env l a y = ([], y))
   \<and> (justification a = [] \<longrightarrow> justification_block env l a y = ([], y))
   \<and> (application_notes a = [] \<longrightarrow> notes_block env l a y = ([], y))"
proof (intro conjI)
  show "(bold, [techSpecsTitle l]) \<in> set (drawn normal (generateApplicationPDF env l a))
      \<longleftrightarrow> technical_specs a \<noteq> []"
    unfolding document_drawn by (cases l) (simp_all add: label_defs)
  show "(bold, [justificationTitle l]) \<in> set (drawn normal (generateApplicationPDF env l a))
      \<longleftrightarrow> justification a \<noteq> []"
    unfolding document_drawn by (cases l) (simp_all add: label_defs)
  show "(bold, [notesTitle l]) \<in> set (drawn normal (generateApplicationPDF env l a))
      \<longleftrightarrow> application_notes a \<noteq> []"
    unfolding document_drawn by (cases l) (simp_all add: label_defs)
  show "length (drawn normal (generateApplicationPDF env l a))
       = 20 + (if technical_specs a = [] then 0 else 2)
            + (if justification a = [] then 0 else 2)
            + (if application_notes a = [] then 0 else 2)
            + (if has_image a then 1 else 0)"
    unfolding document_drawn by simp
  show "technical_specs a = [] \<longrightarrow> tech_specs_block env l a y = ([], y)"
    by (simp add: tech_specs_block_def)
  show "justification a = [] \<longrightarrow> justification_block env l a y = ([], y)"
    by (simp add: justification_block_def)
  show "application_notes a = [] \<longrightarrow> notes_block env l a y = ([], y)"
    by (simp add: notes_block_def)
qed

theorem optional_blocks_omitted_witness:
  "technical_specs example_request \<noteq> [] \<and> justification example_request = []
   \<and> application_notes example_request = []
   \<and> (bold, [''Technical Specifications''])
        \<in> set (drawn normal (generateApplicationPDF example_env en example_request))
   \<and> (bold, [''Business Justification''])
        \<notin> set (drawn normal (generateApplicationPDF example_env en example_request))
   \<and> (bold, [''Additional Notes''])
        \<notin> set (drawn normal (generateApplicationPDF example_env en example_request))
   \<and> length (drawn normal (generateApplicationPDF example_env en example_request)) = 22
   \<and> justification_block example_env en example_request 100 = ([], 100)"
  using optional_blocks_omitted [of en example_env example_request 100]
  by (simp add: example_request_def has_image_def techSpecsTitle_def justificationTitle_def
      notesTitle_def)










end
